theory Spec2Isabelle
  imports Main "HOL-Library.Word"
begin

section \<open>Data model\<close>

text \<open>
  A Go \<^verbatim>\<open>map[string]string\<close> is a partial function; the nil map is \<open>None\<close>, since
  reading a nil map is allowed in Go while writing to it panics.
\<close>

type_synonym gomap = "(string \<rightharpoonup> string) option"

text \<open>
  A \<^verbatim>\<open>time.Time\<close> is the number of nanoseconds since Go's zero time, so the zero value of
  the struct is \<open>0\<close>. A \<^verbatim>\<open>time.Duration\<close> is a signed 64-bit count of nanoseconds, kept
  here as an integer with the saturation of \<^verbatim>\<open>Time.Sub\<close> written out.
\<close>

type_synonym time = int
type_synonym duration = int

definition maxDuration :: duration where
  "maxDuration = 2 ^ 63 - 1"

definition minDuration :: duration where
  "minDuration = - (2 ^ 63)"

text \<open>\<^verbatim>\<open>t.Sub(u)\<close>: the difference, or the largest (smallest) duration when it does not fit.\<close>

definition time_Sub :: "time \<Rightarrow> time \<Rightarrow> duration" where
  "time_Sub t u =
     (let d = t - u in
      if maxDuration < d then maxDuration
      else if d < minDuration then minDuration
      else d)"

text \<open>\<^verbatim>\<open>time.Since(t)\<close> is \<^verbatim>\<open>time.Now().Sub(t)\<close>; the clock reading is the first argument.\<close>

definition time_Since :: "time \<Rightarrow> time \<Rightarrow> duration" where
  "time_Since now t = time_Sub now t"

record OwnerReference =
  ref_apiVersion :: string
  ref_kind :: string
  ref_name :: string
  ref_uid :: string
  ref_controller :: "bool option"
  ref_blockOwnerDeletion :: "bool option"

record ObjectMeta =
  om_name :: string
  om_namespace :: string
  om_uid :: string
  om_resourceVersion :: string
  om_selfLink :: string
  om_creationTimestamp :: time
  om_labels :: gomap
  om_annotations :: gomap
  om_ownerReferences :: "OwnerReference list"

text \<open>The zero value of \<^verbatim>\<open>metaV1.ObjectMeta\<close>.\<close>

definition zeroObjectMeta :: ObjectMeta where
  "zeroObjectMeta =
     \<lparr>om_name = [], om_namespace = [], om_uid = [], om_resourceVersion = [],
      om_selfLink = [], om_creationTimestamp = 0, om_labels = None,
      om_annotations = None, om_ownerReferences = []\<rparr>"

text \<open>
  Modelled from the spec: the declaration of \<^verbatim>\<open>loadTestV1.LoadTestPhase\<close> and of its
  constants is outside the source files; section 3 of the specification lists the phases.
\<close>

datatype LoadTestPhase =
    LoadTestCreating
  | LoadTestStarting
  | LoadTestRunning
  | LoadTestFinished
  | LoadTestErrored

text \<open>\<^verbatim>\<open>batchV1.JobStatus\<close>: the counters are \<^verbatim>\<open>int32\<close>, the completion time a pointer.\<close>

record JobStatus =
  js_completionTime :: "time option"
  js_active :: "32 word"
  js_succeeded :: "32 word"
  js_failed :: "32 word"

record ImageDetails =
  img_image :: string
  img_tag :: string

record LoadTestSpec =
  spec_type :: string
  spec_testFile :: string
  spec_masterConfig :: ImageDetails
  spec_tags :: gomap

record LoadTestStatus =
  st_phase :: LoadTestPhase
  st_namespace :: string
  st_jobStatus :: JobStatus

record LoadTest =
  lt_meta :: ObjectMeta
  lt_spec :: LoadTestSpec
  lt_status :: LoadTestStatus

text \<open>
  \<^verbatim>\<open>metaV1.NewControllerRef(owner, gvk)\<close> of the Kubernetes library. The group and version
  of \<^verbatim>\<open>loadTestV1.SchemeGroupVersion\<close> are declared outside the source files and are taken
  as the parameter \<open>gv\<close>; the kind is the literal \<^verbatim>\<open>"LoadTest"\<close> of both call sites.
\<close>

definition NewControllerRef :: "string \<Rightarrow> LoadTest \<Rightarrow> OwnerReference" where
  "NewControllerRef gv owner =
     \<lparr>ref_apiVersion = gv, ref_kind = ''LoadTest'',
      ref_name = om_name (lt_meta owner), ref_uid = om_uid (lt_meta owner),
      ref_controller = Some True, ref_blockOwnerDeletion = Some True\<rparr>"

section \<open>Logging\<close>

datatype level = Debug | Info | Warn | Error

record logline =
  log_level :: level
  log_msg :: string

section \<open>The ghz backend: resources.go\<close>

record ConfigMap =
  cm_meta :: ObjectMeta
  cm_data :: "string \<rightharpoonup> string"

record EnvVar =
  env_name :: string
  env_value :: string

record VolumeMount =
  vm_name :: string
  vm_mountPath :: string
  vm_subPath :: string

text \<open>A volume whose source is a config map, named by \<open>vol_configMap\<close>.\<close>

record Volume =
  vol_name :: string
  vol_configMap :: string

text \<open>
  The resource requirements of a container are the value of
  \<^verbatim>\<open>backends.BuildResourceRequirements(b.resources)\<close>, a function outside the source files;
  the built value is a parameter of type \<open>'q\<close>.
\<close>

record 'q Container =
  ct_name :: string
  ct_image :: string
  ct_env :: "EnvVar list"
  ct_resources :: 'q
  ct_args :: "string list"
  ct_volumeMounts :: "VolumeMount list"

record 'q PodSpec =
  ps_restartPolicy :: string
  ps_volumes :: "Volume list"
  ps_containers :: "'q Container list"

record 'q PodTemplateSpec =
  pt_meta :: ObjectMeta
  pt_spec :: "'q PodSpec"

record 'q JobSpec =
  jsp_backoffLimit :: "32 word option"
  jsp_template :: "'q PodTemplateSpec"

record 'q Job =
  job_meta :: ObjectMeta
  job_spec :: "'q JobSpec"
  job_status :: JobStatus

text \<open>The zero value of \<^verbatim>\<open>batchV1.JobStatus\<close>.\<close>

definition zeroJobStatus :: JobStatus where
  "zeroJobStatus =
     \<lparr>js_completionTime = None, js_active = 0, js_succeeded = 0, js_failed = 0\<rparr>"

text \<open>The receiver of the backend's methods.\<close>

record 'q Backend =
  b_image :: ImageDetails
  b_podAnnotations :: gomap
  b_requirements :: 'q
  b_groupVersion :: string

definition loadTestJobName :: string where
  "loadTestJobName = ''loadtest-job''"

definition loadTestFileConfigMapName :: string where
  "loadTestFileConfigMapName = ''loadtest-testfile''"

definition configFileName :: string where
  "configFileName = ''config.json''"

definition NewTestFileConfigMap :: "'q Backend \<Rightarrow> LoadTest \<Rightarrow> ConfigMap" where
  "NewTestFileConfigMap b loadTest =
     (let testfile = spec_testFile (lt_spec loadTest) in
      \<lparr>cm_meta = zeroObjectMeta\<lparr>om_name := loadTestFileConfigMapName\<rparr>,
       cm_data = [configFileName \<mapsto> testfile]\<rparr>)"

text \<open>\<^verbatim>\<open>fmt.Sprintf("%s:%s", image, tag)\<close>.\<close>

definition sprintf_image_ref :: "string \<Rightarrow> string \<Rightarrow> string" where
  "sprintf_image_ref img tag = img @ '':'' @ tag"

text \<open>
  \<^verbatim>\<open>NewJob\<close> returns the job; the warning it may write to the logger is returned beside it.
  The config map is passed by a pointer that is not nil.
\<close>

definition NewJob ::
  "'q Backend \<Rightarrow> LoadTest \<Rightarrow> ConfigMap \<Rightarrow> string \<Rightarrow> 'q Job \<times> logline list"
where
  "NewJob b loadTest loadTestFileConfigMap reportURL =
     (let ownerRef = NewControllerRef (b_groupVersion b) loadTest;
          imageRef0 = sprintf_image_ref (img_image (spec_masterConfig (lt_spec loadTest)))
                        (img_tag (spec_masterConfig (lt_spec loadTest)));
          (imageRef, logs) =
            (if imageRef0 = '':''
             then (sprintf_image_ref (img_image (b_image b)) (img_tag (b_image b)),
                   [\<lparr>log_level = Warn,
                     log_msg = ''Loadtest.Spec.MasterConfig is empty; using default image''\<rparr>])
             else (imageRef0, []));
          envVars =
            (if [] \<noteq> reportURL
             then [] @ [\<lparr>env_name = ''REPORT_PRESIGNED_URL'', env_value = reportURL\<rparr>]
             else [])
      in
      (\<lparr>job_meta = zeroObjectMeta
          \<lparr>om_name := loadTestJobName,
           om_namespace := st_namespace (lt_status loadTest),
           om_labels := Some [''name'' \<mapsto> loadTestJobName],
           om_ownerReferences := [ownerRef]\<rparr>,
        job_spec =
          \<lparr>jsp_backoffLimit = None,
           jsp_template =
             \<lparr>pt_meta = zeroObjectMeta
                \<lparr>om_labels := Some [''name'' \<mapsto> loadTestJobName],
                 om_annotations := b_podAnnotations b\<rparr>,
              pt_spec =
                \<lparr>ps_restartPolicy = ''Never'',
                 ps_volumes =
                   [\<lparr>vol_name = ''testfile'',
                     vol_configMap = om_name (cm_meta loadTestFileConfigMap)\<rparr>],
                 ps_containers =
                   [\<lparr>ct_name = ''ghz'',
                     ct_image = imageRef,
                     ct_env = envVars,
                     ct_resources = b_requirements b,
                     ct_args = [''--config=/data/config.json'', ''--output=/results'',
                                ''--format=html''],
                     ct_volumeMounts =
                       [\<lparr>vm_name = ''testfile'', vm_mountPath = ''/data/config.json'',
                         vm_subPath = ''config.json''\<rparr>]\<rparr>]\<rparr>\<rparr>\<rparr>,
        job_status = zeroJobStatus\<rparr>,
       logs))"

text \<open>The containers of a job's pod template.\<close>

definition job_containers :: "'q Job \<Rightarrow> 'q Container list" where
  "job_containers j = ps_containers (pt_spec (jsp_template (job_spec j)))"

text \<open>
  The comparisons of \<^verbatim>\<open>determineLoadTestStatusFromJobs\<close> are on \<^verbatim>\<open>int32\<close>: signed.
\<close>

definition determineLoadTestStatusFromJobs :: "'q Job \<Rightarrow> LoadTestPhase" where
  "determineLoadTestStatusFromJobs job =
     (if sint (js_failed (job_status job)) > 0 then LoadTestErrored
      else if sint (js_active (job_status job)) > 0 then LoadTestRunning
      else if js_succeeded (job_status job) = 0 \<and> js_failed (job_status job) = 0
        then LoadTestStarting
      else LoadTestFinished)"

section \<open>Errors and panics\<close>

text \<open>
  An \<^verbatim>\<open>error\<close> of the Kubernetes client carries a status reason; \<^verbatim>\<open>errors.IsNotFound\<close> and
  \<^verbatim>\<open>errors.IsConflict\<close> read it, also through a wrapping \<^verbatim>\<open>fmt.Errorf("...: %w", err)\<close>.
  The strings are the messages; the arguments formatted into them are not modelled.
\<close>

datatype StatusReason = StatusReasonNotFound | StatusReasonConflict | StatusReasonOther string

datatype error =
    StatusError StatusReason string
  | ErrorString string
  | WrapError string error

fun IsNotFound :: "error \<Rightarrow> bool" where
  "IsNotFound (StatusError r m) = (r = StatusReasonNotFound)"
| "IsNotFound (ErrorString m) = False"
| "IsNotFound (WrapError m e) = IsNotFound e"

fun IsConflict :: "error \<Rightarrow> bool" where
  "IsConflict (StatusError r m) = (r = StatusReasonConflict)"
| "IsConflict (ErrorString m) = False"
| "IsConflict (WrapError m e) = IsConflict e"

text \<open>\<^verbatim>\<open>err.Error()\<close>.\<close>

fun error_Error :: "error \<Rightarrow> string" where
  "error_Error (StatusError r m) = m"
| "error_Error (ErrorString m) = m"
| "error_Error (WrapError m e) = m @ error_Error e"

text \<open>A Go call either returns or panics.\<close>

datatype 'a go_result = Panicked string | Returned 'a

section \<open>The controller: loadtest.go\<close>

record Namespace =
  ns_meta :: ObjectMeta

record Pod =
  pod_meta :: ObjectMeta

text \<open>
  The \<^verbatim>\<open>backends.Backend\<close> interface as the reconciler uses it. \<^verbatim>\<open>Sync\<close> receives the
  LoadTest by value and the report URL; \<^verbatim>\<open>SyncStatus\<close> receives the LoadTest by value and
  a pointer to its status, so it yields the status it leaves behind and its error.
\<close>

record BackendIface =
  be_Sync :: "LoadTest \<Rightarrow> string \<Rightarrow> error option"
  be_SyncStatus :: "LoadTest \<Rightarrow> LoadTestStatus \<times> error option"

text \<open>
  The fields of \<^verbatim>\<open>controller.Config\<close> that loadtest.go reads (the struct is declared
  outside the source files).
\<close>

record Config =
  cfg_SyncHandlerTimeout :: duration
  cfg_KangalProxyURL :: string
  cfg_CleanUpThreshold :: duration
  cfg_NamespaceLabels :: gomap
  cfg_NamespaceAnnotations :: gomap

text \<open>
  The controller with its collaborators. The lister, the registry and the two client sets
  are interfaces to the cluster; each is the function giving the answer of the call. The
  clock and the queue's length are read from the same record.
\<close>

record Controller =
  c_cfg :: Config
  c_groupVersion :: string
  loadtestsLister_Get :: "string \<Rightarrow> error + LoadTest"
  registry_GetBackend :: "string \<Rightarrow> error + BackendIface"
  namespaces_List :: "string \<Rightarrow> error + Namespace list"
  namespaces_Create :: "Namespace \<Rightarrow> error + Namespace"
  loadTests_UpdateStatus :: "LoadTest \<Rightarrow> error option"
  loadTests_Delete :: "string \<Rightarrow> error option"
  workQueue_Len :: int
  time_Now :: time

datatype queue_item = StringItem string | OtherItem

text \<open>
  What a call does to the outside, in order: log lines, \<^verbatim>\<open>utilRuntime.HandleError\<close>,
  the calls to the cluster and to the backend, the work queue's methods and the metrics.
\<close>

datatype event =
    Logged level string
  | HandledError string
  | NamespacesList string
  | NamespacesCreate Namespace
  | BackendSync LoadTest string
  | BackendSyncStatus LoadTest
  | LoadTestsUpdateStatus LoadTest
  | LoadTestsDelete string
  | QueueAdd string
  | QueueAddRateLimited string
  | QueueForget queue_item
  | QueueDone queue_item
  | QueueDepthStat int
  | ReconcileCountStat string string
  | ReconcileLatencyStat string string

definition controllerAgentName :: string where
  "controllerAgentName = ''kangal''"

definition falseString :: string where
  "falseString = ''false''"

definition trueString :: string where
  "trueString = ''true''"

subsection \<open>Keys\<close>

text \<open>\<^verbatim>\<open>strings.Split(s, "/")\<close>.\<close>

fun strings_Split :: "char \<Rightarrow> string \<Rightarrow> string list" where
  "strings_Split sep [] = [[]]"
| "strings_Split sep (c # cs) =
     (if c = sep then [] # strings_Split sep cs
      else (case strings_Split sep cs of
              [] \<Rightarrow> [[c]]
            | p # ps \<Rightarrow> (c # p) # ps))"

text \<open>\<^verbatim>\<open>cache.SplitMetaNamespaceKey\<close> of the client library.\<close>

definition SplitMetaNamespaceKey :: "string \<Rightarrow> error + string \<times> string" where
  "SplitMetaNamespaceKey key =
     (case strings_Split CHR ''/'' key of
        [n] \<Rightarrow> Inr ([], n)
      | [ns, n] \<Rightarrow> Inr (ns, n)
      | _ \<Rightarrow> Inl (ErrorString ''unexpected key format''))"

text \<open>
  \<^verbatim>\<open>cache.MetaNamespaceKeyFunc\<close> on an object with metadata: the name, after the namespace
  and a slash when the namespace is not empty.
\<close>

definition MetaNamespaceKeyFunc :: "ObjectMeta \<Rightarrow> error + string" where
  "MetaNamespaceKeyFunc m =
     (if 0 < length (om_namespace m) then Inr (om_namespace m @ ''/'' @ om_name m)
      else Inr (om_name m))"

text \<open>\<^verbatim>\<open>metaV1.GetControllerOf\<close>: the first owner reference whose controller flag is set.\<close>

definition GetControllerOf :: "ObjectMeta \<Rightarrow> OwnerReference option" where
  "GetControllerOf object =
     find (\<lambda>r. ref_controller r = Some True) (om_ownerReferences object)"

subsection \<open>Event handlers\<close>

definition enqueueLoadTest :: "Controller \<Rightarrow> LoadTest \<Rightarrow> event list" where
  "enqueueLoadTest c obj =
     (case MetaNamespaceKeyFunc (lt_meta obj) of
        Inl err \<Rightarrow> [HandledError (error_Error err)]
      | Inr key \<Rightarrow> [QueueAdd key])"

text \<open>
  What the informer hands to \<^verbatim>\<open>handleObject\<close>: an object with metadata, a tombstone
  around another value, or a value of another type.
\<close>

datatype informer_obj =
    MetaObject ObjectMeta
  | DeletedFinalStateUnknown informer_obj
  | NotAnObject

text \<open>Lines 404 to 420: the object behind the argument, or the error reported.\<close>

fun decodeObject :: "informer_obj \<Rightarrow> event list + ObjectMeta \<times> event list" where
  "decodeObject (MetaObject object) = Inr (object, [])"
| "decodeObject (DeletedFinalStateUnknown (MetaObject object)) =
     Inr (object, [Logged Info ''Recovered deleted object from tombstone''])"
| "decodeObject (DeletedFinalStateUnknown other) =
     Inl [HandledError ''error decoding object tombstone, invalid type'']"
| "decodeObject NotAnObject = Inl [HandledError ''error decoding object, invalid type'']"

definition handleObject :: "Controller \<Rightarrow> informer_obj \<Rightarrow> event list" where
  "handleObject c obj =
     (case decodeObject obj of
        Inl tr \<Rightarrow> tr
      | Inr (object, tr) \<Rightarrow>
          (case GetControllerOf object of
             None \<Rightarrow> tr
           | Some ownerRef \<Rightarrow>
               if ref_kind ownerRef \<noteq> ''LoadTest'' then tr
               else
                 (case loadtestsLister_Get c (ref_name ownerRef) of
                    Inl err \<Rightarrow>
                      tr @ [Logged Debug ''Processing object'',
                            Logged Debug ''ignoring orphaned object'']
                  | Inr foo \<Rightarrow>
                      tr @ [Logged Debug ''Processing object''] @ enqueueLoadTest c foo)))"

text \<open>The handlers \<^verbatim>\<open>NewController\<close> registers with the three informers.\<close>

definition loadTestAddFunc :: "Controller \<Rightarrow> LoadTest \<Rightarrow> event list" where
  "loadTestAddFunc c obj = enqueueLoadTest c obj"

definition loadTestUpdateFunc :: "Controller \<Rightarrow> LoadTest \<Rightarrow> LoadTest \<Rightarrow> event list" where
  "loadTestUpdateFunc c old new = enqueueLoadTest c new"

definition jobAddFunc :: "Controller \<Rightarrow> 'q Job \<Rightarrow> event list" where
  "jobAddFunc c obj = handleObject c (MetaObject (job_meta obj))"

definition jobUpdateFunc :: "Controller \<Rightarrow> 'q Job \<Rightarrow> 'q Job \<Rightarrow> event list" where
  "jobUpdateFunc c old new =
     (let newJob = new; oldJob = old in
      if om_resourceVersion (job_meta newJob) = om_resourceVersion (job_meta oldJob) then []
      else handleObject c (MetaObject (job_meta new)))"

definition podAddFunc :: "Controller \<Rightarrow> Pod \<Rightarrow> event list" where
  "podAddFunc c obj = handleObject c (MetaObject (pod_meta obj))"

definition podUpdateFunc :: "Controller \<Rightarrow> Pod \<Rightarrow> Pod \<Rightarrow> event list" where
  "podUpdateFunc c old new =
     (let newPod = new; oldPod = old in
      if om_resourceVersion (pod_meta newPod) = om_resourceVersion (pod_meta oldPod) then []
      else handleObject c (MetaObject (pod_meta new)))"

text \<open>The keys a run puts on the work queue with \<^verbatim>\<open>Add\<close>.\<close>

fun enqueued :: "event list \<Rightarrow> string list" where
  "enqueued [] = []"
| "enqueued (QueueAdd k # es) = k # enqueued es"
| "enqueued (e # es) = enqueued es"

subsection \<open>The reconciler\<close>

definition updateLoadTestStatus ::
  "Controller \<Rightarrow> string \<Rightarrow> LoadTest \<Rightarrow> LoadTest \<Rightarrow> event list"
where
  "updateLoadTestStatus c key loadTest loadTestFromCache =
     (if st_phase (lt_status loadTest) \<noteq> st_phase (lt_status loadTestFromCache) then
        [Logged Debug ''Updating loadtest status'', LoadTestsUpdateStatus loadTest] @
        (case loadTests_UpdateStatus c loadTest of
           Some err \<Rightarrow>
             if IsConflict err then
               [HandledError ''there is a conflict with loadtest '%s' between datastore and cache. it might be because object has been removed or modified in the datastore'']
             else [Logged Error ''Failed updating loadtest status'']
         | None \<Rightarrow> [Logged Debug ''Status updated''])
      else [])"

text \<open>\<^verbatim>\<open>maps.Clone\<close> keeps a nil map nil.\<close>

definition maps_Clone :: "gomap \<Rightarrow> gomap" where
  "maps_Clone m = (case m of None \<Rightarrow> None | Some f \<Rightarrow> Some f)"

text \<open>
  \<^verbatim>\<open>newNamespace\<close>: the assignment \<^verbatim>\<open>labels["controller"] = ...\<close> panics when the clone of
  the configured labels is the nil map.
\<close>

definition newNamespace ::
  "string \<Rightarrow> LoadTest \<Rightarrow> gomap \<Rightarrow> gomap \<Rightarrow> (Namespace \<times> error option) go_result"
where
  "newNamespace gv loadtest namespacelabels namespaceAnnotations =
     (case maps_Clone namespacelabels of
        None \<Rightarrow> Panicked ''assignment to entry in nil map''
      | Some labels0 \<Rightarrow>
          (let labels1 = labels0(''controller'' \<mapsto> om_name (lt_meta loadtest));
               labels2 = labels1(''app'' \<mapsto> ''kangal'')
           in Returned
                (\<lparr>ns_meta = zeroObjectMeta
                    \<lparr>om_name := om_name (lt_meta loadtest),
                     om_labels := Some labels2,
                     om_annotations := namespaceAnnotations,
                     om_ownerReferences := [NewControllerRef gv loadtest]\<rparr>\<rparr>,
                 None)))"

text \<open>
  \<^verbatim>\<open>checkOrCreateNamespace\<close> works on a pointer: the LoadTest it leaves behind is returned
  beside the outcome and the calls made.
\<close>

definition checkOrCreateNamespace ::
  "Controller \<Rightarrow> LoadTest \<Rightarrow> error option go_result \<times> LoadTest \<times> event list"
where
  "checkOrCreateNamespace c loadtest =
     (if st_namespace (lt_status loadtest) \<noteq> [] then (Returned None, loadtest, [])
      else
        (let selector = ''controller='' @ om_name (lt_meta loadtest) in
         case namespaces_List c selector of
           Inl err \<Rightarrow> (Returned (Some err), loadtest, [NamespacesList selector])
         | Inr namespaces \<Rightarrow>
             (case namespaces of
                [] \<Rightarrow>
                  (case newNamespace (c_groupVersion c) loadtest
                          (cfg_NamespaceLabels (c_cfg c)) (cfg_NamespaceAnnotations (c_cfg c)) of
                     Panicked p \<Rightarrow> (Panicked p, loadtest, [NamespacesList selector])
                   | Returned (newNs, Some err) \<Rightarrow>
                       (Returned (Some err), loadtest, [NamespacesList selector])
                   | Returned (newNs, None) \<Rightarrow>
                       (case namespaces_Create c newNs of
                          Inl err \<Rightarrow>
                            (Returned (Some err), loadtest,
                             [NamespacesList selector, NamespacesCreate newNs])
                        | Inr namespaceObj \<Rightarrow>
                            (Returned None,
                             loadtest\<lparr>lt_status := (lt_status loadtest)
                               \<lparr>st_namespace := om_name (ns_meta namespaceObj)\<rparr>\<rparr>,
                             [NamespacesList selector, NamespacesCreate newNs,
                              Logged Info ''Created new namespace''])))
              | first # others \<Rightarrow>
                  (Returned None,
                   loadtest\<lparr>lt_status := (lt_status loadtest)
                     \<lparr>st_namespace := om_name (ns_meta first)\<rparr>\<rparr>,
                   [NamespacesList selector]))))"

definition checkLoadTestLifeTimeExceeded :: "time \<Rightarrow> LoadTest \<Rightarrow> duration \<Rightarrow> bool" where
  "checkLoadTestLifeTimeExceeded now loadTest deleteThreshold =
     (if (case js_completionTime (st_jobStatus (lt_status loadTest)) of
            None \<Rightarrow> False
          | Some completionTime \<Rightarrow>
              time_Since now completionTime > deleteThreshold \<and>
              (st_phase (lt_status loadTest) = LoadTestFinished \<or>
               st_phase (lt_status loadTest) = LoadTestErrored))
      then True
      else if st_phase (lt_status loadTest) = LoadTestErrored \<and>
              time_Since now (om_creationTimestamp (lt_meta loadTest)) > deleteThreshold
      then True
      else False)"

definition deleteLoadTest :: "Controller \<Rightarrow> string \<Rightarrow> LoadTest \<Rightarrow> event list" where
  "deleteLoadTest c key loadTest =
     LoadTestsDelete (om_name (lt_meta loadTest)) #
     (case loadTests_Delete c (om_name (lt_meta loadTest)) of
        None \<Rightarrow> []
      | Some err \<Rightarrow>
          (if IsConflict err then
             [Logged Error ''There is a conflict while deleting the loadtest'',
              HandledError ''there is a conflict with loadtest %q between datastore and cache. It might be because object has been removed or modified in the datastore'']
           else []) @
          [Logged Error ''Failed to delete loadtest:''])"

text \<open>
  Lines 369 to 395 of \<^verbatim>\<open>syncHandler\<close>, the part that runs once the status update has been
  deferred: the outcome, the LoadTest copy as it is left, and the calls made.
\<close>

definition syncHandler_deferred ::
  "Controller \<Rightarrow> string \<Rightarrow> BackendIface \<Rightarrow> LoadTest \<Rightarrow> string \<Rightarrow>
   error option go_result \<times> LoadTest \<times> event list"
where
  "syncHandler_deferred c key backend loadTest reportURL =
     (case checkOrCreateNamespace c loadTest of
        (Panicked p, lt1, tr1) \<Rightarrow> (Panicked p, lt1, tr1)
      | (Returned (Some err), lt1, tr1) \<Rightarrow> (Returned (Some err), lt1, tr1)
      | (Returned None, lt1, tr1) \<Rightarrow>
          (case be_Sync backend lt1 reportURL of
             Some err \<Rightarrow> (Returned (Some err), lt1, tr1 @ [BackendSync lt1 reportURL])
           | None \<Rightarrow>
               (let (status2, serr) = be_SyncStatus backend lt1;
                    lt2 = lt1\<lparr>lt_status := status2\<rparr>;
                    tr2 = tr1 @ [BackendSync lt1 reportURL, BackendSyncStatus lt1]
                in case serr of
                     Some err \<Rightarrow> (Returned (Some err), lt2, tr2)
                   | None \<Rightarrow>
                       if cfg_CleanUpThreshold (c_cfg c) \<noteq> 0 \<and>
                          checkLoadTestLifeTimeExceeded (time_Now c) lt2
                            (cfg_CleanUpThreshold (c_cfg c))
                       then (Returned None, lt2,
                             tr2 @ [Logged Info ''Deleting loadtest due to exceeded lifetime''] @
                             deleteLoadTest c key lt2)
                       else (Returned None, lt2, tr2))))"

text \<open>
  \<^verbatim>\<open>syncHandler\<close>: what it returns (or that it panics), the local copy \<^verbatim>\<open>loadTest\<close> at
  the exit (\<open>None\<close> on the exits that precede the copy), and the calls made. The deferred
  \<^verbatim>\<open>updateLoadTestStatus\<close> runs after the rest, on a return and on a panic alike, and
  cannot change the result.
\<close>

definition syncHandler ::
  "Controller \<Rightarrow> string \<Rightarrow> error option go_result \<times> LoadTest option \<times> event list"
where
  "syncHandler c key =
     (case SplitMetaNamespaceKey key of
        Inl err \<Rightarrow> (Returned None, None, [HandledError ''invalid resource key: %s''])
      | Inr (ns, name) \<Rightarrow>
          (case loadtestsLister_Get c name of
             Inl err \<Rightarrow>
               if IsNotFound err then
                 (Returned None, None,
                  [HandledError ''loadtest '%s' in work queue no longer exists''])
               else if IsConflict err then
                 (Returned None, None,
                  [HandledError ''there is a conflict with loadtest '%s' between datastore and cache. it might be because object has been removed or modified in the datastore''])
               else (Returned (Some err), None, [])
           | Inr loadTestFromCache \<Rightarrow>
               (let loadTest = loadTestFromCache;
                    reportURL =
                      (if cfg_KangalProxyURL (c_cfg c) \<noteq> [] then
                         cfg_KangalProxyURL (c_cfg c) @ ''/load-test/'' @
                         om_name (lt_meta loadTest) @ ''/report''
                       else [])
                in case registry_GetBackend c (spec_type (lt_spec loadTest)) of
                     Inl err \<Rightarrow>
                       (Returned (Some (WrapError ''failed to resolve backend: '' err)),
                        Some loadTest, [])
                   | Inr backend \<Rightarrow>
                       (case syncHandler_deferred c key backend loadTest reportURL of
                          (res, loadTest', tr) \<Rightarrow>
                            (res, Some loadTest',
                             tr @ updateLoadTestStatus c key loadTest' loadTestFromCache)))))"

text \<open>
  \<^verbatim>\<open>processNextWorkItem\<close>, given what \<^verbatim>\<open>workQueue.Get()\<close> returned. The deferred closure
  reads the variable \<^verbatim>\<open>err\<close> of line 271, which no statement assigns (line 297 declares
  its own), so the metrics carry \<^verbatim>\<open>trueString\<close>; it runs before the deferred \<^verbatim>\<open>Done\<close>.
\<close>

definition processNextWorkItem ::
  "Controller \<Rightarrow> queue_item \<times> bool \<Rightarrow> bool go_result \<times> event list"
where
  "processNextWorkItem c got =
     (case got of (obj, shutdown) \<Rightarrow>
        if shutdown then (Returned False, [])
        else
          (let depth = [QueueDepthStat (workQueue_Len c)];
               deferred = (\<lambda>key. [ReconcileCountStat key trueString,
                                   ReconcileLatencyStat key trueString,
                                   QueueDone obj])
           in case obj of
                OtherItem \<Rightarrow>
                  (Returned True,
                   depth @
                   [QueueForget obj,
                    HandledError ''expected string in workQueue but got %#v''] @
                   deferred [])
              | StringItem key \<Rightarrow>
                  (case syncHandler c key of
                     (Panicked p, copy, tr) \<Rightarrow> (Panicked p, depth @ tr @ deferred key)
                   | (Returned (Some err), copy, tr) \<Rightarrow>
                       (Returned True,
                        depth @ tr @
                        [QueueAddRateLimited key,
                         Logged Error ''error syncing loadtest, re-queuing''] @
                        deferred key @
                        [HandledError ''error syncing '%s': %s, requeuing''])
                   | (Returned None, copy, tr) \<Rightarrow>
                       (Returned True,
                        depth @ tr @
                        [QueueForget obj, Logged Debug ''Successfully synced''] @
                        deferred key))))"

subsection \<open>Reading a run\<close>

text \<open>The LoadTests a run hands to \<^verbatim>\<open>UpdateStatus\<close>, in order.\<close>

fun statusWrites :: "event list \<Rightarrow> LoadTest list" where
  "statusWrites [] = []"
| "statusWrites (LoadTestsUpdateStatus l # es) = l # statusWrites es"
| "statusWrites (e # es) = statusWrites es"

text \<open>The names a run hands to \<^verbatim>\<open>Delete\<close>, in order.\<close>

fun deleteCalls :: "event list \<Rightarrow> string list" where
  "deleteCalls [] = []"
| "deleteCalls (LoadTestsDelete n # es) = n # deleteCalls es"
| "deleteCalls (e # es) = deleteCalls es"

text \<open>The LoadTest and report URL of each call of the backend's \<^verbatim>\<open>Sync\<close>.\<close>

fun syncCalls :: "event list \<Rightarrow> (LoadTest \<times> string) list" where
  "syncCalls [] = []"
| "syncCalls (BackendSync l u # es) = (l, u) # syncCalls es"
| "syncCalls (e # es) = syncCalls es"

text \<open>The namespaces a run hands to \<^verbatim>\<open>Create\<close>.\<close>

fun createCalls :: "event list \<Rightarrow> Namespace list" where
  "createCalls [] = []"
| "createCalls (NamespacesCreate n # es) = n # createCalls es"
| "createCalls (e # es) = createCalls es"

text \<open>The calls of \<^verbatim>\<open>Forget\<close> and \<^verbatim>\<open>AddRateLimited\<close> of a run, in order.\<close>

fun retryCalls :: "event list \<Rightarrow> event list" where
  "retryCalls [] = []"
| "retryCalls (QueueForget i # es) = QueueForget i # retryCalls es"
| "retryCalls (QueueAddRateLimited k # es) = QueueAddRateLimited k # retryCalls es"
| "retryCalls (e # es) = retryCalls es"

text \<open>The log lines of a run.\<close>

fun logged :: "event list \<Rightarrow> logline list" where
  "logged [] = []"
| "logged (Logged l m # es) = \<lparr>log_level = l, log_msg = m\<rparr> # logged es"
| "logged (e # es) = logged es"

section \<open>The command: controller.go\<close>

text \<open>\<^verbatim>\<open>strings.SplitN(s, sep, 2)\<close> for a separator of one character.\<close>

definition strings_SplitN2 :: "char \<Rightarrow> string \<Rightarrow> string list" where
  "strings_SplitN2 sep s =
     (if sep \<in> set s
      then [takeWhile (\<lambda>c. c \<noteq> sep) s, tl (dropWhile (\<lambda>c. c \<noteq> sep) s)]
      else [s])"

text \<open>
  The loop of \<^verbatim>\<open>convertKeyPairStringToMap\<close> over the entries, on the map built so far:
  the double quotes are removed, the entry is split at its first colon.
\<close>

fun convertKeyPairStringToMap_loop ::
  "(string \<rightharpoonup> string) \<Rightarrow> string list \<Rightarrow> error + gomap"
where
  "convertKeyPairStringToMap_loop m [] = Inr (Some m)"
| "convertKeyPairStringToMap_loop m (a # s) =
     (let a' = filter (\<lambda>c. c \<noteq> CHR 0x22) a;
          str = strings_SplitN2 CHR '':'' a'
      in if length str < 2 then Inl (ErrorString ''Annotation %q is invalid'')
         else convertKeyPairStringToMap_loop (m(str ! 0 \<mapsto> str ! 1)) s)"

text \<open>
  \<^verbatim>\<open>convertKeyPairStringToMap\<close> starts from \<^verbatim>\<open>make(map[string]string, len(s))\<close>, a map
  that is empty and not nil. \<^verbatim>\<open>populateCfgFromOpts\<close> stores its result in
  \<^verbatim>\<open>cfg.NamespaceLabels\<close>, \<^verbatim>\<open>cfg.NamespaceAnnotations\<close> and \<^verbatim>\<open>cfg.PodAnnotations\<close>.
\<close>

definition convertKeyPairStringToMap :: "string list \<Rightarrow> error + gomap" where
  "convertKeyPairStringToMap s = convertKeyPairStringToMap_loop Map.empty s"

section \<open>Concrete runs\<close>

text \<open>A LoadTest \<^verbatim>\<open>t1\<close> of type \<^verbatim>\<open>ghz\<close>, freshly created: no image, no namespace.\<close>

definition ex_loadTest :: LoadTest where
  "ex_loadTest =
     \<lparr>lt_meta = zeroObjectMeta\<lparr>om_name := ''t1'', om_uid := ''uid-1''\<rparr>,
      lt_spec = \<lparr>spec_type = ''ghz'', spec_testFile = ''{}'',
                 spec_masterConfig = \<lparr>img_image = [], img_tag = []\<rparr>,
                 spec_tags = None\<rparr>,
      lt_status = \<lparr>st_phase = LoadTestCreating, st_namespace = [],
                   st_jobStatus = zeroJobStatus\<rparr>\<rparr>"

text \<open>The same LoadTest with a tag and no image.\<close>

definition ex_tagOnly :: LoadTest where
  "ex_tagOnly =
     ex_loadTest\<lparr>lt_spec := (lt_spec ex_loadTest)
       \<lparr>spec_masterConfig := \<lparr>img_image = [], img_tag = ''v1''\<rparr>\<rparr>\<rparr>"

text \<open>The same LoadTest with an image and a tag.\<close>

definition ex_pinned :: LoadTest where
  "ex_pinned =
     ex_loadTest\<lparr>lt_spec := (lt_spec ex_loadTest)
       \<lparr>spec_masterConfig := \<lparr>img_image = ''custom/ghz'', img_tag = ''v1''\<rparr>\<rparr>\<rparr>"

definition ex_backend :: "unit Backend" where
  "ex_backend =
     \<lparr>b_image = \<lparr>img_image = ''hellofresh/kangal-ghz'', img_tag = ''latest''\<rparr>,
      b_podAnnotations = None, b_requirements = (),
      b_groupVersion = ''kangal.hellofresh.com/v1''\<rparr>"

text \<open>One hour and two hours, in nanoseconds, and a clock reading.\<close>

definition ex_hour :: duration where
  "ex_hour = 3600000000000"

definition ex_now :: time where
  "ex_now = 63900000000000000000"

text \<open>A LoadTest \<^verbatim>\<open>t3\<close> that finished two hours before \<open>ex_now\<close>, in its namespace.\<close>

definition ex_finished :: LoadTest where
  "ex_finished =
     \<lparr>lt_meta = zeroObjectMeta\<lparr>om_name := ''t3'', om_uid := ''uid-3'',
                  om_creationTimestamp := ex_now - 3 * ex_hour\<rparr>,
      lt_spec = \<lparr>spec_type = ''ghz'', spec_testFile = ''{}'',
                 spec_masterConfig = \<lparr>img_image = [], img_tag = []\<rparr>,
                 spec_tags = None\<rparr>,
      lt_status = \<lparr>st_phase = LoadTestFinished, st_namespace = ''t3'',
                   st_jobStatus = zeroJobStatus
                     \<lparr>js_completionTime := Some (ex_now - 2 * ex_hour),
                      js_succeeded := 1\<rparr>\<rparr>\<rparr>"

text \<open>
  A LoadTest \<^verbatim>\<open>t6\<close> whose job failed: created three hours before \<open>ex_now\<close>, completed
  two hours before it, phase Errored.
\<close>

definition ex_errored :: LoadTest where
  "ex_errored =
     \<lparr>lt_meta = zeroObjectMeta\<lparr>om_name := ''t6'', om_uid := ''uid-6'',
                  om_creationTimestamp := ex_now - 3 * ex_hour\<rparr>,
      lt_spec = \<lparr>spec_type = ''ghz'', spec_testFile = ''{}'',
                 spec_masterConfig = \<lparr>img_image = [], img_tag = []\<rparr>,
                 spec_tags = None\<rparr>,
      lt_status = \<lparr>st_phase = LoadTestErrored, st_namespace = ''t6'',
                   st_jobStatus = zeroJobStatus
                     \<lparr>js_completionTime := Some (ex_now - 2 * ex_hour),
                      js_failed := 1\<rparr>\<rparr>\<rparr>"

text \<open>
  A backend whose \<^verbatim>\<open>Sync\<close> succeeds and whose \<^verbatim>\<open>SyncStatus\<close> moves a LoadTest that is
  being created to \<^verbatim>\<open>Starting\<close> and leaves every other status as it is.
\<close>

definition ex_iface :: BackendIface where
  "ex_iface =
     \<lparr>be_Sync = (\<lambda>l u. None),
      be_SyncStatus = (\<lambda>l.
        (if st_phase (lt_status l) = LoadTestCreating
         then (lt_status l)\<lparr>st_phase := LoadTestStarting\<rparr>
         else lt_status l, None))\<rparr>"

text \<open>
  A controller with a proxy URL and a clean-up threshold of one hour. Its cache holds
  \<^verbatim>\<open>t1\<close> and \<^verbatim>\<open>t3\<close>, answers a conflict for \<^verbatim>\<open>t4\<close>, a timeout for \<^verbatim>\<open>t5\<close> and not-found
  for every other name. The cluster has no namespace yet and creates the one asked for;
  it answers every status write with a conflict and every delete with an internal error.
\<close>

definition ex_controller :: Controller where
  "ex_controller =
     \<lparr>c_cfg = \<lparr>cfg_SyncHandlerTimeout = 30000000000,
               cfg_KangalProxyURL = ''https://p.example'',
               cfg_CleanUpThreshold = ex_hour,
               cfg_NamespaceLabels = Some [''team'' \<mapsto> ''perf''],
               cfg_NamespaceAnnotations = Some Map.empty\<rparr>,
      c_groupVersion = ''kangal.hellofresh.com/v1'',
      loadtestsLister_Get = (\<lambda>n.
        if n = ''t1'' then Inr ex_loadTest
        else if n = ''t3'' then Inr ex_finished
        else if n = ''t4'' then Inl (StatusError StatusReasonConflict ''conflict'')
        else if n = ''t5'' then Inl (StatusError (StatusReasonOther ''Timeout'') ''timeout'')
        else Inl (StatusError StatusReasonNotFound ''not found'')),
      registry_GetBackend = (\<lambda>t.
        if t = ''ghz'' then Inr ex_iface else Inl (ErrorString ''backend not found'')),
      namespaces_List = (\<lambda>sel. Inr []),
      namespaces_Create = (\<lambda>n. Inr n),
      loadTests_UpdateStatus = (\<lambda>l. Some (StatusError StatusReasonConflict ''conflict'')),
      loadTests_Delete = (\<lambda>n.
        Some (StatusError (StatusReasonOther ''InternalError'') ''internal error'')),
      workQueue_Len = 0,
      time_Now = ex_now\<rparr>"

text \<open>The same controller with no proxy URL.\<close>

definition ex_noProxy :: Controller where
  "ex_noProxy = ex_controller\<lparr>c_cfg := (c_cfg ex_controller)\<lparr>cfg_KangalProxyURL := []\<rparr>\<rparr>"

text \<open>
  Objects seen by the job and pod informers: one without owner, one owned by a
  Deployment, one owned by the cached LoadTest \<^verbatim>\<open>t1\<close>, one owned by a LoadTest that is
  not in the cache.
\<close>

definition ex_ownerRef :: "string \<Rightarrow> string \<Rightarrow> OwnerReference" where
  "ex_ownerRef k n =
     \<lparr>ref_apiVersion = ''v1'', ref_kind = k, ref_name = n, ref_uid = ''uid'',
      ref_controller = Some True, ref_blockOwnerDeletion = Some True\<rparr>"

definition ex_unowned :: ObjectMeta where
  "ex_unowned = zeroObjectMeta\<lparr>om_name := ''pod-0'', om_resourceVersion := ''7''\<rparr>"

definition ex_ownedByDeployment :: ObjectMeta where
  "ex_ownedByDeployment =
     ex_unowned\<lparr>om_ownerReferences := [ex_ownerRef ''Deployment'' ''t1'']\<rparr>"

definition ex_ownedByT1 :: ObjectMeta where
  "ex_ownedByT1 = ex_unowned\<lparr>om_ownerReferences := [ex_ownerRef ''LoadTest'' ''t1'']\<rparr>"

definition ex_orphan :: ObjectMeta where
  "ex_orphan = ex_unowned\<lparr>om_ownerReferences := [ex_ownerRef ''LoadTest'' ''missing'']\<rparr>"

section \<open>Properties\<close>

subsection \<open>Reading a run: distribution over concatenation\<close>

lemma enqueued_append [simp]: "enqueued (xs @ ys) = enqueued xs @ enqueued ys"
  by (induction xs rule: enqueued.induct) simp_all

lemma statusWrites_append [simp]: "statusWrites (xs @ ys) = statusWrites xs @ statusWrites ys"
  by (induction xs rule: statusWrites.induct) simp_all

lemma deleteCalls_append [simp]: "deleteCalls (xs @ ys) = deleteCalls xs @ deleteCalls ys"
  by (induction xs rule: deleteCalls.induct) simp_all

lemma syncCalls_append [simp]: "syncCalls (xs @ ys) = syncCalls xs @ syncCalls ys"
  by (induction xs rule: syncCalls.induct) simp_all

lemma createCalls_append [simp]: "createCalls (xs @ ys) = createCalls xs @ createCalls ys"
  by (induction xs rule: createCalls.induct) simp_all

lemma retryCalls_append [simp]: "retryCalls (xs @ ys) = retryCalls xs @ retryCalls ys"
  by (induction xs rule: retryCalls.induct) simp_all

lemma logged_append [simp]: "logged (xs @ ys) = logged xs @ logged ys"
  by (induction xs rule: logged.induct) simp_all

text \<open>The definitions that evaluating a concrete run unfolds.\<close>

lemmas ex_simps =
  ex_loadTest_def ex_backend_def ex_hour_def ex_now_def ex_finished_def ex_iface_def
  ex_controller_def ex_ownerRef_def ex_unowned_def ex_ownedByT1_def
  zeroObjectMeta_def zeroJobStatus_def

lemmas run_simps =
  syncHandler_def syncHandler_deferred_def checkOrCreateNamespace_def newNamespace_def
  maps_Clone_def NewControllerRef_def updateLoadTestStatus_def deleteLoadTest_def
  checkLoadTestLifeTimeExceeded_def time_Since_def time_Sub_def maxDuration_def
  minDuration_def SplitMetaNamespaceKey_def processNextWorkItem_def trueString_def Let_def

subsection \<open>The ghz backend\<close>

lemma sprintf_image_ref_colon: "sprintf_image_ref a b = '':'' \<longleftrightarrow> a = [] \<and> b = []"
  by (cases a) (auto simp: sprintf_image_ref_def)

text \<open>
  C1, as the code has it. The job of \<^verbatim>\<open>NewJob\<close> has one container. Its image is the
  backend's default reference exactly when both \<^verbatim>\<open>spec.masterConfig.image\<close> and
  \<^verbatim>\<open>spec.masterConfig.tag\<close> are empty, and then one warning is logged; in every other
  case, also when only one of the two fields is empty, the image is
  \<^verbatim>\<open>image:tag\<close> built from the two fields and nothing is logged.
\<close>

theorem NewJob_image_ref:
  "map ct_image (job_containers (fst (NewJob b loadTest cm reportURL))) =
     [if img_image (spec_masterConfig (lt_spec loadTest)) = [] \<and>
         img_tag (spec_masterConfig (lt_spec loadTest)) = []
      then img_image (b_image b) @ '':'' @ img_tag (b_image b)
      else img_image (spec_masterConfig (lt_spec loadTest)) @ '':'' @
           img_tag (spec_masterConfig (lt_spec loadTest))] \<and>
   snd (NewJob b loadTest cm reportURL) =
     (if img_image (spec_masterConfig (lt_spec loadTest)) = [] \<and>
         img_tag (spec_masterConfig (lt_spec loadTest)) = []
      then [\<lparr>log_level = Warn,
             log_msg = ''Loadtest.Spec.MasterConfig is empty; using default image''\<rparr>]
      else [])"
  by (simp add: NewJob_def job_containers_def Let_def sprintf_image_ref_colon)
     (simp add: sprintf_image_ref_def)

theorem NewJob_image_ref_witness:
  "map ct_image (job_containers (fst (NewJob ex_backend ex_loadTest
      (NewTestFileConfigMap ex_backend ex_loadTest) []))) = [''hellofresh/kangal-ghz:latest''] \<and>
   map log_level (snd (NewJob ex_backend ex_loadTest
      (NewTestFileConfigMap ex_backend ex_loadTest) [])) = [Warn] \<and>
   map ct_image (job_containers (fst (NewJob ex_backend ex_pinned
      (NewTestFileConfigMap ex_backend ex_pinned) []))) = [''custom/ghz:v1''] \<and>
   snd (NewJob ex_backend ex_pinned (NewTestFileConfigMap ex_backend ex_pinned) []) = []"
  using NewJob_image_ref [of ex_backend ex_loadTest "NewTestFileConfigMap ex_backend ex_loadTest" "[]"]
    NewJob_image_ref [of ex_backend ex_pinned "NewTestFileConfigMap ex_backend ex_pinned" "[]"]
  by (simp add: ex_pinned_def ex_simps)

text \<open>
  C1 as stated fails: with an empty image and the tag \<^verbatim>\<open>v1\<close> the container runs the
  image \<^verbatim>\<open>:v1\<close>, not the backend's default reference, and no warning is logged.
\<close>

theorem NewJob_image_tag_only_counterexample:
  "img_image (spec_masterConfig (lt_spec ex_tagOnly)) = [] \<and>
   map ct_image (job_containers (fst (NewJob ex_backend ex_tagOnly
      (NewTestFileConfigMap ex_backend ex_tagOnly) []))) = ['':v1''] \<and>
   '':v1'' \<noteq> img_image (b_image ex_backend) @ '':'' @ img_tag (b_image ex_backend) \<and>
   snd (NewJob ex_backend ex_tagOnly (NewTestFileConfigMap ex_backend ex_tagOnly) []) = []"
  by (simp add: NewJob_def job_containers_def Let_def sprintf_image_ref_def ex_tagOnly_def
      ex_simps)

text \<open>
  C4. The phase derived from a job's counters, read as signed 32-bit integers: Errored
  when \<open>failed > 0\<close>; otherwise Running when \<open>active > 0\<close>; otherwise Starting when
  \<open>succeeded = 0\<close> and \<open>failed = 0\<close>; otherwise Finished. Read backwards, each phase is
  returned in that case only, and the phase is never Creating.
\<close>

theorem determineLoadTestStatusFromJobs_phase:
  "determineLoadTestStatusFromJobs job =
     (if sint (js_failed (job_status job)) > 0 then LoadTestErrored
      else if sint (js_active (job_status job)) > 0 then LoadTestRunning
      else if js_succeeded (job_status job) = 0 \<and> js_failed (job_status job) = 0
        then LoadTestStarting
      else LoadTestFinished) \<and>
   (determineLoadTestStatusFromJobs job = LoadTestErrored \<longleftrightarrow>
      sint (js_failed (job_status job)) > 0) \<and>
   (determineLoadTestStatusFromJobs job = LoadTestRunning \<longleftrightarrow>
      \<not> sint (js_failed (job_status job)) > 0 \<and> sint (js_active (job_status job)) > 0) \<and>
   (determineLoadTestStatusFromJobs job = LoadTestStarting \<longleftrightarrow>
      \<not> sint (js_failed (job_status job)) > 0 \<and> \<not> sint (js_active (job_status job)) > 0 \<and>
      js_succeeded (job_status job) = 0 \<and> js_failed (job_status job) = 0) \<and>
   (determineLoadTestStatusFromJobs job = LoadTestFinished \<longleftrightarrow>
      \<not> sint (js_failed (job_status job)) > 0 \<and> \<not> sint (js_active (job_status job)) > 0 \<and>
      \<not> (js_succeeded (job_status job) = 0 \<and> js_failed (job_status job) = 0)) \<and>
   determineLoadTestStatusFromJobs job \<noteq> LoadTestCreating"
  by (simp add: determineLoadTestStatusFromJobs_def)

theorem determineLoadTestStatusFromJobs_phase_witness:
  "determineLoadTestStatusFromJobs
     ((fst (NewJob ex_backend ex_loadTest (NewTestFileConfigMap ex_backend ex_loadTest) []))
        \<lparr>job_status := zeroJobStatus\<lparr>js_failed := 1, js_active := 1\<rparr>\<rparr>) = LoadTestErrored \<and>
   determineLoadTestStatusFromJobs
     ((fst (NewJob ex_backend ex_loadTest (NewTestFileConfigMap ex_backend ex_loadTest) []))
        \<lparr>job_status := zeroJobStatus\<lparr>js_active := 1\<rparr>\<rparr>) = LoadTestRunning \<and>
   determineLoadTestStatusFromJobs
     (fst (NewJob ex_backend ex_loadTest (NewTestFileConfigMap ex_backend ex_loadTest) []))
       = LoadTestStarting \<and>
   determineLoadTestStatusFromJobs
     ((fst (NewJob ex_backend ex_loadTest (NewTestFileConfigMap ex_backend ex_loadTest) []))
        \<lparr>job_status := zeroJobStatus\<lparr>js_succeeded := 1\<rparr>\<rparr>) = LoadTestFinished"
  using
    determineLoadTestStatusFromJobs_phase [of
      "(fst (NewJob ex_backend ex_loadTest (NewTestFileConfigMap ex_backend ex_loadTest) []))
        \<lparr>job_status := zeroJobStatus\<lparr>js_failed := 1, js_active := 1\<rparr>\<rparr>"]
    determineLoadTestStatusFromJobs_phase [of
      "(fst (NewJob ex_backend ex_loadTest (NewTestFileConfigMap ex_backend ex_loadTest) []))
        \<lparr>job_status := zeroJobStatus\<lparr>js_active := 1\<rparr>\<rparr>"]
    determineLoadTestStatusFromJobs_phase [of
      "fst (NewJob ex_backend ex_loadTest (NewTestFileConfigMap ex_backend ex_loadTest) [])"]
    determineLoadTestStatusFromJobs_phase [of
      "(fst (NewJob ex_backend ex_loadTest (NewTestFileConfigMap ex_backend ex_loadTest) []))
        \<lparr>job_status := zeroJobStatus\<lparr>js_succeeded := 1\<rparr>\<rparr>"]
  by (simp add: NewJob_def Let_def zeroJobStatus_def)

subsection \<open>Elapsed time\<close>

text \<open>
  \<^verbatim>\<open>time.Since\<close> is the plain difference whenever the difference is a \<^verbatim>\<open>Duration\<close>, and
  comparing it with a threshold below the largest duration is comparing the difference.
\<close>

lemma time_Since_minus:
  "minDuration \<le> now - t \<Longrightarrow> now - t \<le> maxDuration \<Longrightarrow> time_Since now t = now - t"
  by (simp add: time_Since_def time_Sub_def)

lemma time_Since_gt_iff:
  "minDuration \<le> threshold \<Longrightarrow> threshold < maxDuration \<Longrightarrow>
   time_Since now t > threshold \<longleftrightarrow> now - t > threshold"
  by (auto simp: time_Since_def time_Sub_def Let_def)

lemma time_Since_range: "minDuration \<le> time_Since now t \<and> time_Since now t \<le> maxDuration"
  by (simp add: time_Since_def time_Sub_def Let_def minDuration_def maxDuration_def)

text \<open>
  C2, as the code has it. \<^verbatim>\<open>checkLoadTestLifeTimeExceeded\<close> is true exactly when (a)
  the completion time is set, the time elapsed since it exceeds the threshold and the
  phase is Finished or Errored, or (b) the phase is Errored and the time elapsed since
  the creation timestamp exceeds the threshold. The elapsed time is the duration
  \<^verbatim>\<open>time.Since\<close> yields. At the boundary, where the time elapsed since completion equals
  the threshold, the result is false unless the phase is Errored and the time elapsed
  since creation exceeds the threshold; then it is true. With no completion time, an
  Errored LoadTest whose time since creation equals the threshold gives false.
\<close>

theorem checkLoadTestLifeTimeExceeded_iff:
  "(checkLoadTestLifeTimeExceeded now loadTest threshold \<longleftrightarrow>
      (\<exists>completionTime.
          js_completionTime (st_jobStatus (lt_status loadTest)) = Some completionTime \<and>
          time_Since now completionTime > threshold \<and>
          (st_phase (lt_status loadTest) = LoadTestFinished \<or>
           st_phase (lt_status loadTest) = LoadTestErrored)) \<or>
      (st_phase (lt_status loadTest) = LoadTestErrored \<and>
       time_Since now (om_creationTimestamp (lt_meta loadTest)) > threshold)) \<and>
   (js_completionTime (st_jobStatus (lt_status loadTest)) = Some t \<and>
    time_Since now t = threshold
      \<longrightarrow> checkLoadTestLifeTimeExceeded now loadTest threshold =
           (st_phase (lt_status loadTest) = LoadTestErrored \<and>
            time_Since now (om_creationTimestamp (lt_meta loadTest)) > threshold)) \<and>
   (js_completionTime (st_jobStatus (lt_status loadTest)) = None \<and>
    time_Since now (om_creationTimestamp (lt_meta loadTest)) = threshold
      \<longrightarrow> \<not> checkLoadTestLifeTimeExceeded now loadTest threshold)"
  by (auto simp: checkLoadTestLifeTimeExceeded_def split: option.splits)

text \<open>
  The LoadTest that finished two hours ago, against thresholds of one hour and of two
  hours (the boundary: false); the Errored LoadTest that completed two hours ago and was
  created three hours ago, at the two-hour boundary (true, by (b)) and at a threshold of
  three hours (false); an Errored LoadTest with no completion time; a Running one.
\<close>

theorem checkLoadTestLifeTimeExceeded_iff_witness:
  "checkLoadTestLifeTimeExceeded ex_now ex_finished ex_hour \<and>
   js_completionTime (st_jobStatus (lt_status ex_finished)) = Some (ex_now - 2 * ex_hour) \<and>
   time_Since ex_now (ex_now - 2 * ex_hour) = 2 * ex_hour \<and>
   st_phase (lt_status ex_finished) = LoadTestFinished \<and>
   \<not> checkLoadTestLifeTimeExceeded ex_now ex_finished (2 * ex_hour) \<and>
   checkLoadTestLifeTimeExceeded ex_now ex_errored (2 * ex_hour) \<and>
   \<not> checkLoadTestLifeTimeExceeded ex_now ex_errored (3 * ex_hour) \<and>
   checkLoadTestLifeTimeExceeded ex_now
     (ex_loadTest\<lparr>lt_status := (lt_status ex_loadTest)\<lparr>st_phase := LoadTestErrored\<rparr>\<rparr>) ex_hour \<and>
   \<not> checkLoadTestLifeTimeExceeded ex_now
     (ex_finished\<lparr>lt_status := (lt_status ex_finished)\<lparr>st_phase := LoadTestRunning\<rparr>\<rparr>) ex_hour"
  using
    checkLoadTestLifeTimeExceeded_iff [of ex_now ex_finished ex_hour "ex_now - 2 * ex_hour"]
    checkLoadTestLifeTimeExceeded_iff [of ex_now ex_finished "2 * ex_hour" "ex_now - 2 * ex_hour"]
    checkLoadTestLifeTimeExceeded_iff [of ex_now ex_errored "2 * ex_hour" "ex_now - 2 * ex_hour"]
    checkLoadTestLifeTimeExceeded_iff [of ex_now ex_errored "3 * ex_hour" "ex_now - 2 * ex_hour"]
    checkLoadTestLifeTimeExceeded_iff [of ex_now
      "ex_loadTest\<lparr>lt_status := (lt_status ex_loadTest)\<lparr>st_phase := LoadTestErrored\<rparr>\<rparr>"
      ex_hour 0]
    checkLoadTestLifeTimeExceeded_iff [of ex_now
      "ex_finished\<lparr>lt_status := (lt_status ex_finished)\<lparr>st_phase := LoadTestRunning\<rparr>\<rparr>"
      ex_hour 0]
  by (simp add: ex_errored_def ex_simps time_Since_def time_Sub_def maxDuration_def
      minDuration_def)

text \<open>
  C2 as stated fails at the boundary. The Errored LoadTest completed exactly two hours
  before the clock reading and the threshold is two hours, positive: the time elapsed
  since completion equals the threshold, as a plain difference and as \<^verbatim>\<open>time.Since\<close>
  yields it. It was created three hours before, so clause (b) holds and the function
  returns true, where the claim's boundary sentence says false.
\<close>

theorem checkLoadTestLifeTimeExceeded_boundary_counterexample:
  "0 < 2 * ex_hour \<and>
   js_completionTime (st_jobStatus (lt_status ex_errored)) = Some (ex_now - 2 * ex_hour) \<and>
   ex_now - (ex_now - 2 * ex_hour) = 2 * ex_hour \<and>
   time_Since ex_now (ex_now - 2 * ex_hour) = 2 * ex_hour \<and>
   st_phase (lt_status ex_errored) = LoadTestErrored \<and>
   time_Since ex_now (om_creationTimestamp (lt_meta ex_errored)) = 3 * ex_hour \<and>
   checkLoadTestLifeTimeExceeded ex_now ex_errored (2 * ex_hour)"
  by (simp add: checkLoadTestLifeTimeExceeded_def ex_errored_def ex_hour_def ex_now_def
      zeroObjectMeta_def zeroJobStatus_def time_Since_def time_Sub_def maxDuration_def
      minDuration_def)

subsection \<open>The reconciler: what each part of a run calls\<close>

lemma checkOrCreateNamespace_calls:
  "checkOrCreateNamespace c lt = (r, lt', tr) \<Longrightarrow>
   statusWrites tr = [] \<and> deleteCalls tr = [] \<and> syncCalls tr = [] \<and> retryCalls tr = []"
  by (auto simp: checkOrCreateNamespace_def Let_def
      split: if_splits sum.splits list.splits go_result.splits option.splits prod.splits)

lemma checkOrCreateNamespace_meta:
  "checkOrCreateNamespace c lt = (r, lt', tr) \<Longrightarrow>
   lt_meta lt' = lt_meta lt \<and> lt_spec lt' = lt_spec lt \<and>
   st_phase (lt_status lt') = st_phase (lt_status lt)"
  by (auto simp: checkOrCreateNamespace_def Let_def
      split: if_splits sum.splits list.splits go_result.splits option.splits prod.splits)

lemma deleteLoadTest_calls:
  "statusWrites (deleteLoadTest c key lt) = [] \<and>
   syncCalls (deleteLoadTest c key lt) = [] \<and>
   retryCalls (deleteLoadTest c key lt) = [] \<and>
   deleteCalls (deleteLoadTest c key lt) = [om_name (lt_meta lt)]"
  by (simp add: deleteLoadTest_def split: option.splits)

lemma updateLoadTestStatus_calls:
  "statusWrites (updateLoadTestStatus c key lt cached) =
     (if st_phase (lt_status lt) \<noteq> st_phase (lt_status cached) then [lt] else []) \<and>
   syncCalls (updateLoadTestStatus c key lt cached) = [] \<and>
   retryCalls (updateLoadTestStatus c key lt cached) = [] \<and>
   deleteCalls (updateLoadTestStatus c key lt cached) = []"
  by (simp add: updateLoadTestStatus_def split: option.splits)

lemma syncHandler_deferred_calls:
  assumes "syncHandler_deferred c key be lt url = (r, lt', tr)"
  shows "statusWrites tr = [] \<and> retryCalls tr = [] \<and>
         (\<forall>l u. (l, u) \<in> set (syncCalls tr) \<longrightarrow> u = url \<and> lt_meta l = lt_meta lt) \<and>
         (deleteCalls tr \<noteq> [] \<longrightarrow> r = Returned None)"
proof -
  obtain r1 lt1 tr1 where n: "checkOrCreateNamespace c lt = (r1, lt1, tr1)"
    by (metis prod_cases3)
  note calls = checkOrCreateNamespace_calls [OF n] checkOrCreateNamespace_meta [OF n]
  from assms n calls show ?thesis
    by (auto simp: syncHandler_deferred_def Let_def deleteLoadTest_calls
        split: go_result.splits option.splits prod.splits if_splits)
qed

text \<open>
  \<^verbatim>\<open>syncHandler\<close> taken apart: it leaves before the copy with no call to the cluster, or
  it fails to resolve the backend right after the copy, or it runs the deferred part and
  then \<^verbatim>\<open>updateLoadTestStatus\<close>.
\<close>

lemma syncHandler_cases:
  assumes "syncHandler c key = (res, copy, tr)"
  shows "(copy = None \<and> statusWrites tr = [] \<and> deleteCalls tr = [] \<and> syncCalls tr = [] \<and>
            retryCalls tr = []) \<or>
         (\<exists>ns name cached e. SplitMetaNamespaceKey key = Inr (ns, name) \<and>
            loadtestsLister_Get c name = Inr cached \<and>
            registry_GetBackend c (spec_type (lt_spec cached)) = Inl e \<and>
            copy = Some cached \<and> tr = [] \<and> res \<noteq> Returned None) \<or>
         (\<exists>ns name cached be lt' tr'. SplitMetaNamespaceKey key = Inr (ns, name) \<and>
            loadtestsLister_Get c name = Inr cached \<and>
            registry_GetBackend c (spec_type (lt_spec cached)) = Inr be \<and>
            syncHandler_deferred c key be cached
              (if cfg_KangalProxyURL (c_cfg c) \<noteq> []
               then cfg_KangalProxyURL (c_cfg c) @ ''/load-test/'' @
                    om_name (lt_meta cached) @ ''/report''
               else []) = (res, lt', tr') \<and>
            copy = Some lt' \<and> tr = tr' @ updateLoadTestStatus c key lt' cached)"
  using assms
  by (auto simp: syncHandler_def Let_def split: sum.splits prod.splits if_splits)

lemma syncHandler_ignores_UpdateStatus:
  "fst (syncHandler (c\<lparr>loadTests_UpdateStatus := answer\<rparr>) key) = fst (syncHandler c key)"
proof -
  have ns: "checkOrCreateNamespace (c\<lparr>loadTests_UpdateStatus := answer\<rparr>) lt =
            checkOrCreateNamespace c lt" for lt
    by (simp add: checkOrCreateNamespace_def Let_def
        cong: sum.case_cong list.case_cong go_result.case_cong)
  have del: "deleteLoadTest (c\<lparr>loadTests_UpdateStatus := answer\<rparr>) k lt =
             deleteLoadTest c k lt" for k lt
    by (simp add: deleteLoadTest_def)
  have "syncHandler_deferred (c\<lparr>loadTests_UpdateStatus := answer\<rparr>) k be lt url =
        syncHandler_deferred c k be lt url" for k be lt url
    by (simp add: syncHandler_deferred_def ns del Let_def
        split: prod.splits go_result.splits option.splits)
  then show ?thesis
    by (simp add: syncHandler_def Let_def split: sum.splits prod.splits)
qed

text \<open>
  C3. Whatever way \<^verbatim>\<open>syncHandler\<close> leaves (returning nil, returning an error, or
  panicking), \<^verbatim>\<open>UpdateStatus\<close> is called if and only if a copy was made and its phase
  differs from the phase of the cached object; it is then called once, with the copy.
  What \<^verbatim>\<open>syncHandler\<close> returns does not depend on the answer of that call: a conflict
  (or any other error) on the status write leaves a successful reconcile successful.
\<close>

theorem syncHandler_status_update_guard:
  assumes "syncHandler c key = (res, copy, tr)"
  shows "(copy = None \<longrightarrow> statusWrites tr = []) \<and>
         (\<forall>loadTest. copy = Some loadTest \<longrightarrow>
            (\<exists>ns name cached.
               SplitMetaNamespaceKey key = Inr (ns, name) \<and>
               loadtestsLister_Get c name = Inr cached \<and>
               statusWrites tr =
                 (if st_phase (lt_status loadTest) \<noteq> st_phase (lt_status cached)
                  then [loadTest] else []))) \<and>
         fst (syncHandler (c\<lparr>loadTests_UpdateStatus := answer\<rparr>) key) = res"
proof -
  have "fst (syncHandler (c\<lparr>loadTests_UpdateStatus := answer\<rparr>) key) = res"
    using assms by (simp add: syncHandler_ignores_UpdateStatus)
  moreover
  from syncHandler_cases [OF assms]
  have "(copy = None \<longrightarrow> statusWrites tr = []) \<and>
         (\<forall>loadTest. copy = Some loadTest \<longrightarrow>
            (\<exists>ns name cached.
               SplitMetaNamespaceKey key = Inr (ns, name) \<and>
               loadtestsLister_Get c name = Inr cached \<and>
               statusWrites tr =
                 (if st_phase (lt_status loadTest) \<noteq> st_phase (lt_status cached)
                  then [loadTest] else [])))"
  proof (elim disjE exE conjE)
    assume "copy = None" "statusWrites tr = []"
    then show ?thesis by simp
  next
    fix ns name cached e
    assume "SplitMetaNamespaceKey key = Inr (ns, name)"
      "loadtestsLister_Get c name = Inr cached" "copy = Some cached" "tr = []"
    then show ?thesis by simp
  next
    fix ns name cached be lt' tr'
    assume k: "SplitMetaNamespaceKey key = Inr (ns, name)"
      and g: "loadtestsLister_Get c name = Inr cached"
      and d: "syncHandler_deferred c key be cached
              (if cfg_KangalProxyURL (c_cfg c) \<noteq> []
               then cfg_KangalProxyURL (c_cfg c) @ ''/load-test/'' @
                    om_name (lt_meta cached) @ ''/report''
               else []) = (res, lt', tr')"
      and c: "copy = Some lt'" and t: "tr = tr' @ updateLoadTestStatus c key lt' cached"
    from syncHandler_deferred_calls [OF d] have "statusWrites tr' = []" by simp
    with k g c t show ?thesis by (simp add: updateLoadTestStatus_calls)
  qed
  ultimately show ?thesis by simp
qed

theorem syncHandler_status_update_guard_witness:
  "fst (syncHandler ex_controller ''t1'') = Returned None \<and>
   loadTests_UpdateStatus ex_controller ex_loadTest =
     Some (StatusError StatusReasonConflict ''conflict'') \<and>
   map (\<lambda>l. st_phase (lt_status l)) (statusWrites (snd (snd (syncHandler ex_controller ''t1''))))
     = [LoadTestStarting] \<and>
   st_phase (lt_status ex_loadTest) = LoadTestCreating \<and>
   fst (syncHandler (ex_controller\<lparr>loadTests_UpdateStatus := (\<lambda>l. None)\<rparr>) ''t1'')
     = Returned None \<and>
   statusWrites (snd (snd (syncHandler ex_controller ''t3''))) = [] \<and>
   statusWrites (snd (snd (syncHandler ex_controller ''missing''))) = []"
  using
    syncHandler_status_update_guard [of ex_controller "''t1''"
      "fst (syncHandler ex_controller ''t1'')" "fst (snd (syncHandler ex_controller ''t1''))"
      "snd (snd (syncHandler ex_controller ''t1''))" "\<lambda>l. None"]
    syncHandler_status_update_guard [of ex_controller "''t3''"
      "fst (syncHandler ex_controller ''t3'')" "fst (snd (syncHandler ex_controller ''t3''))"
      "snd (snd (syncHandler ex_controller ''t3''))" "\<lambda>l. None"]
    syncHandler_status_update_guard [of ex_controller "''missing''"
      "fst (syncHandler ex_controller ''missing'')"
      "fst (snd (syncHandler ex_controller ''missing''))"
      "snd (snd (syncHandler ex_controller ''missing''))" "\<lambda>l. None"]
  by (simp add: run_simps ex_simps)

lemma syncHandler_no_queue_calls:
  assumes "syncHandler c key = (res, copy, tr)"
  shows "retryCalls tr = []"
  using syncHandler_cases [OF assms]
proof (elim disjE exE conjE)
  fix ns name cached be lt' tr'
  assume d: "syncHandler_deferred c key be cached
              (if cfg_KangalProxyURL (c_cfg c) \<noteq> []
               then cfg_KangalProxyURL (c_cfg c) @ ''/load-test/'' @
                    om_name (lt_meta cached) @ ''/report''
               else []) = (res, lt', tr')"
    and t: "tr = tr' @ updateLoadTestStatus c key lt' cached"
  from syncHandler_deferred_calls [OF d] t show ?thesis
    by (simp add: updateLoadTestStatus_calls)
qed simp_all

text \<open>What the worker does with the key after \<^verbatim>\<open>syncHandler\<close> returned.\<close>

lemma processNextWorkItem_retry:
  assumes "syncHandler c key = (Returned r, copy, tr)"
  shows "retryCalls (snd (processNextWorkItem c (StringItem key, False))) =
           (case r of None \<Rightarrow> [QueueForget (StringItem key)]
            | Some err \<Rightarrow> [QueueAddRateLimited key])"
  using assms syncHandler_no_queue_calls [OF assms]
  by (simp add: processNextWorkItem_def Let_def split: option.splits)

text \<open>
  C5. When the fetch from the cache fails with a not-found or a conflict error,
  \<^verbatim>\<open>syncHandler\<close> returns nil and the worker calls \<^verbatim>\<open>Forget\<close> on the item and never
  \<^verbatim>\<open>AddRateLimited\<close>; for any other fetch error \<^verbatim>\<open>syncHandler\<close> returns that error and
  the worker calls \<^verbatim>\<open>AddRateLimited\<close> on the key and never \<^verbatim>\<open>Forget\<close>.
\<close>

theorem syncHandler_fetch_error:
  assumes "SplitMetaNamespaceKey key = Inr (ns, name)"
    and "loadtestsLister_Get c name = Inl err"
  shows "(IsNotFound err \<or> IsConflict err \<longrightarrow>
            fst (syncHandler c key) = Returned None \<and>
            retryCalls (snd (processNextWorkItem c (StringItem key, False))) =
              [QueueForget (StringItem key)]) \<and>
         (\<not> IsNotFound err \<and> \<not> IsConflict err \<longrightarrow>
            fst (syncHandler c key) = Returned (Some err) \<and>
            retryCalls (snd (processNextWorkItem c (StringItem key, False))) =
              [QueueAddRateLimited key])"
proof -
  obtain res copy tr where run: "syncHandler c key = (res, copy, tr)"
    by (metis prod_cases3)
  from run assms have res: "res = (if IsNotFound err \<or> IsConflict err then Returned None
                                   else Returned (Some err))"
    by (auto simp: syncHandler_def split: if_splits)
  show ?thesis
  proof (cases rule: case_split [of "IsNotFound err \<or> IsConflict err"])
    case True
    with res run have "syncHandler c key = (Returned None, copy, tr)" by simp
    from processNextWorkItem_retry [OF this] this True show ?thesis by simp
  next
    case False
    with res run have "syncHandler c key = (Returned (Some err), copy, tr)" by simp
    from processNextWorkItem_retry [OF this] this False show ?thesis by simp
  qed
qed

theorem syncHandler_fetch_error_witness:
  "SplitMetaNamespaceKey ''missing'' = Inr ([], ''missing'') \<and>
   loadtestsLister_Get ex_controller ''missing'' =
     Inl (StatusError StatusReasonNotFound ''not found'') \<and>
   fst (syncHandler ex_controller ''missing'') = Returned None \<and>
   retryCalls (snd (processNextWorkItem ex_controller (StringItem ''missing'', False))) =
     [QueueForget (StringItem ''missing'')] \<and>
   loadtestsLister_Get ex_controller ''t4'' =
     Inl (StatusError StatusReasonConflict ''conflict'') \<and>
   fst (syncHandler ex_controller ''t4'') = Returned None \<and>
   retryCalls (snd (processNextWorkItem ex_controller (StringItem ''t4'', False))) =
     [QueueForget (StringItem ''t4'')] \<and>
   loadtestsLister_Get ex_controller ''t5'' =
     Inl (StatusError (StatusReasonOther ''Timeout'') ''timeout'') \<and>
   fst (syncHandler ex_controller ''t5'') =
     Returned (Some (StatusError (StatusReasonOther ''Timeout'') ''timeout'')) \<and>
   retryCalls (snd (processNextWorkItem ex_controller (StringItem ''t5'', False))) =
     [QueueAddRateLimited ''t5'']"
  using
    syncHandler_fetch_error [of "''missing''" "[]" "''missing''" ex_controller
      "StatusError StatusReasonNotFound ''not found''"]
    syncHandler_fetch_error [of "''t4''" "[]" "''t4''" ex_controller
      "StatusError StatusReasonConflict ''conflict''"]
    syncHandler_fetch_error [of "''t5''" "[]" "''t5''" ex_controller
      "StatusError (StatusReasonOther ''Timeout'') ''timeout''"]
  by (simp add: SplitMetaNamespaceKey_def ex_controller_def)

text \<open>
  C10. When the clean-up branch of \<^verbatim>\<open>syncHandler\<close> calls \<^verbatim>\<open>Delete\<close>, the reconcile
  returns nil whatever the cluster answers: a failed delete is logged at error level and
  nothing else, and the worker calls \<^verbatim>\<open>Forget\<close> on the item and never
  \<^verbatim>\<open>AddRateLimited\<close>.
\<close>

theorem syncHandler_delete_failure_ignored:
  assumes "syncHandler c key = (res, copy, tr)"
    and "n \<in> set (deleteCalls tr)"
  shows "res = Returned None \<and>
         retryCalls (snd (processNextWorkItem c (StringItem key, False))) =
           [QueueForget (StringItem key)] \<and>
         (loadTests_Delete c n \<noteq> None \<longrightarrow>
            \<lparr>log_level = Error, log_msg = ''Failed to delete loadtest:''\<rparr> \<in> set (logged tr))"
proof -
  from syncHandler_cases [OF assms(1)] assms(2)
  obtain ns name cached be lt' tr' where
    d: "syncHandler_deferred c key be cached
              (if cfg_KangalProxyURL (c_cfg c) \<noteq> []
               then cfg_KangalProxyURL (c_cfg c) @ ''/load-test/'' @
                    om_name (lt_meta cached) @ ''/report''
               else []) = (res, lt', tr')"
    and t: "tr = tr' @ updateLoadTestStatus c key lt' cached"
    by auto
  from assms(2) t have n: "n \<in> set (deleteCalls tr')"
    by (simp add: updateLoadTestStatus_calls)
  then have "deleteCalls tr' \<noteq> []" by auto
  with syncHandler_deferred_calls [OF d] have res: "res = Returned None" by simp
  obtain r1 lt1 tr1 where ns: "checkOrCreateNamespace c cached = (r1, lt1, tr1)"
    by (metis prod_cases3)
  from checkOrCreateNamespace_calls [OF ns] have "deleteCalls tr1 = []" by simp
  with d n ns have "loadTests_Delete c n \<noteq> None \<longrightarrow>
      \<lparr>log_level = Error, log_msg = ''Failed to delete loadtest:''\<rparr> \<in> set (logged tr')"
    by (auto simp: syncHandler_deferred_def Let_def deleteLoadTest_def
        split: go_result.splits option.splits prod.splits if_splits)
  with t have "loadTests_Delete c n \<noteq> None \<longrightarrow>
      \<lparr>log_level = Error, log_msg = ''Failed to delete loadtest:''\<rparr> \<in> set (logged tr)"
    by simp
  moreover from assms(1) res have "syncHandler c key = (Returned None, copy, tr)" by simp
  from processNextWorkItem_retry [OF this]
  have "retryCalls (snd (processNextWorkItem c (StringItem key, False))) =
           [QueueForget (StringItem key)]" by simp
  ultimately show ?thesis using res by simp
qed

theorem syncHandler_delete_failure_ignored_witness:
  "deleteCalls (snd (snd (syncHandler ex_controller ''t3''))) = [''t3''] \<and>
   loadTests_Delete ex_controller ''t3'' =
     Some (StatusError (StatusReasonOther ''InternalError'') ''internal error'') \<and>
   fst (syncHandler ex_controller ''t3'') = Returned None \<and>
   retryCalls (snd (processNextWorkItem ex_controller (StringItem ''t3'', False))) =
     [QueueForget (StringItem ''t3'')] \<and>
   \<lparr>log_level = Error, log_msg = ''Failed to delete loadtest:''\<rparr>
     \<in> set (logged (snd (snd (syncHandler ex_controller ''t3''))))"
proof -
  have run: "syncHandler ex_controller ''t3'' =
      (fst (syncHandler ex_controller ''t3''), fst (snd (syncHandler ex_controller ''t3'')),
       snd (snd (syncHandler ex_controller ''t3'')))"
    by simp
  have calls: "deleteCalls (snd (snd (syncHandler ex_controller ''t3''))) = [''t3'']"
    by (simp add: run_simps ex_simps)
  then have mem: "''t3'' \<in> set (deleteCalls (snd (snd (syncHandler ex_controller ''t3''))))"
    by simp
  have answer: "loadTests_Delete ex_controller ''t3'' =
     Some (StatusError (StatusReasonOther ''InternalError'') ''internal error'')"
    by (simp add: ex_controller_def)
  from syncHandler_delete_failure_ignored [OF run mem] calls answer show ?thesis
    by simp
qed

subsection \<open>Event handlers\<close>

lemma handleObject_undecodable:
  "decodeObject obj = Inl tr \<Longrightarrow> enqueued (handleObject c obj) = []"
  by (induction obj rule: decodeObject.induct) (auto simp: handleObject_def)

lemma decodeObject_enqueued:
  "decodeObject obj = Inr (object, tr0) \<Longrightarrow> enqueued tr0 = []"
  by (induction obj rule: decodeObject.induct) auto

text \<open>
  C6. For an object the handler can read (a Job or a Pod, or one recovered from a
  tombstone): with no controlling owner reference, or with one whose kind is not
  \<^verbatim>\<open>LoadTest\<close>, no key is enqueued; with one that names a LoadTest the cache does not
  hold, a debug line is logged and no key is enqueued; with one that names a cached
  LoadTest, the key of that LoadTest is enqueued, once.
\<close>

theorem handleObject_enqueues:
  assumes "decodeObject obj = Inr (object, tr0)"
  shows "(GetControllerOf object = None \<longrightarrow> enqueued (handleObject c obj) = []) \<and>
         (\<forall>ownerRef. GetControllerOf object = Some ownerRef \<longrightarrow>
            (ref_kind ownerRef \<noteq> ''LoadTest'' \<longrightarrow> enqueued (handleObject c obj) = []) \<and>
            (ref_kind ownerRef = ''LoadTest'' \<longrightarrow>
               (\<forall>err. loadtestsLister_Get c (ref_name ownerRef) = Inl err \<longrightarrow>
                  enqueued (handleObject c obj) = [] \<and>
                  \<lparr>log_level = Debug, log_msg = ''ignoring orphaned object''\<rparr>
                    \<in> set (logged (handleObject c obj))) \<and>
               (\<forall>loadTest. loadtestsLister_Get c (ref_name ownerRef) = Inr loadTest \<longrightarrow>
                  enqueued (handleObject c obj) =
                    [if om_namespace (lt_meta loadTest) = [] then om_name (lt_meta loadTest)
                     else om_namespace (lt_meta loadTest) @ ''/'' @
                          om_name (lt_meta loadTest)])))"
  using assms decodeObject_enqueued [OF assms]
  by (auto simp: handleObject_def enqueueLoadTest_def MetaNamespaceKeyFunc_def)

theorem handleObject_enqueues_witness:
  "enqueued (handleObject ex_controller (MetaObject ex_unowned)) = [] \<and>
   enqueued (handleObject ex_controller (MetaObject ex_ownedByDeployment)) = [] \<and>
   enqueued (handleObject ex_controller (MetaObject ex_orphan)) = [] \<and>
   logged (handleObject ex_controller (MetaObject ex_orphan)) =
     [\<lparr>log_level = Debug, log_msg = ''Processing object''\<rparr>,
      \<lparr>log_level = Debug, log_msg = ''ignoring orphaned object''\<rparr>] \<and>
   enqueued (handleObject ex_controller (MetaObject ex_ownedByT1)) = [''t1''] \<and>
   enqueued (handleObject ex_controller (DeletedFinalStateUnknown (MetaObject ex_ownedByT1)))
     = [''t1'']"
  using
    handleObject_enqueues [of "MetaObject ex_unowned" ex_unowned "[]" ex_controller]
    handleObject_enqueues [of "MetaObject ex_ownedByDeployment" ex_ownedByDeployment "[]"
      ex_controller]
    handleObject_enqueues [of "MetaObject ex_orphan" ex_orphan "[]" ex_controller]
    handleObject_enqueues [of "MetaObject ex_ownedByT1" ex_ownedByT1 "[]" ex_controller]
    handleObject_enqueues [of "DeletedFinalStateUnknown (MetaObject ex_ownedByT1)" ex_ownedByT1
      "[Logged Info ''Recovered deleted object from tombstone'']" ex_controller]
  by (simp add: handleObject_def GetControllerOf_def enqueueLoadTest_def
      MetaNamespaceKeyFunc_def ex_ownedByDeployment_def ex_orphan_def ex_simps)

text \<open>
  C7. An Update event of the job informer or of the pod informer whose new object has
  the resource version of the old one does nothing at all: in particular it enqueues no
  key.
\<close>

theorem update_same_resourceVersion_dropped:
  "(om_resourceVersion (job_meta newJob) = om_resourceVersion (job_meta oldJob) \<longrightarrow>
      jobUpdateFunc c oldJob newJob = [] \<and> enqueued (jobUpdateFunc c oldJob newJob) = []) \<and>
   (om_resourceVersion (pod_meta newPod) = om_resourceVersion (pod_meta oldPod) \<longrightarrow>
      podUpdateFunc c oldPod newPod = [] \<and> enqueued (podUpdateFunc c oldPod newPod) = [])"
  by (simp add: jobUpdateFunc_def podUpdateFunc_def)

text \<open>
  A job and a pod owned by the cached LoadTest \<^verbatim>\<open>t1\<close>: an update that keeps the resource
  version enqueues nothing, the same update with a new resource version enqueues \<^verbatim>\<open>t1\<close>.
\<close>

theorem update_same_resourceVersion_dropped_witness:
  "enqueued (podUpdateFunc ex_controller \<lparr>pod_meta = ex_ownedByT1\<rparr>
      \<lparr>pod_meta = ex_ownedByT1\<lparr>om_labels := Some Map.empty\<rparr>\<rparr>) = [] \<and>
   enqueued (podUpdateFunc ex_controller \<lparr>pod_meta = ex_ownedByT1\<rparr>
      \<lparr>pod_meta = ex_ownedByT1\<lparr>om_resourceVersion := ''8''\<rparr>\<rparr>) = [''t1''] \<and>
   enqueued (jobUpdateFunc ex_controller
      (fst (NewJob ex_backend ex_loadTest (NewTestFileConfigMap ex_backend ex_loadTest) []))
      ((fst (NewJob ex_backend ex_loadTest (NewTestFileConfigMap ex_backend ex_loadTest) []))
         \<lparr>job_status := zeroJobStatus\<lparr>js_active := 1\<rparr>\<rparr>)) = [] \<and>
   enqueued (jobUpdateFunc ex_controller
      (fst (NewJob ex_backend ex_loadTest (NewTestFileConfigMap ex_backend ex_loadTest) []))
      ((fst (NewJob ex_backend ex_loadTest (NewTestFileConfigMap ex_backend ex_loadTest) []))
         \<lparr>job_meta := ex_ownedByT1\<rparr>)) = [''t1'']"
  using
    update_same_resourceVersion_dropped [of
      "(fst (NewJob ex_backend ex_loadTest (NewTestFileConfigMap ex_backend ex_loadTest) []))
         \<lparr>job_status := zeroJobStatus\<lparr>js_active := 1\<rparr>\<rparr>"
      "fst (NewJob ex_backend ex_loadTest (NewTestFileConfigMap ex_backend ex_loadTest) [])"
      ex_controller
      "\<lparr>pod_meta = ex_ownedByT1\<lparr>om_labels := Some Map.empty\<rparr>\<rparr>"
      "\<lparr>pod_meta = ex_ownedByT1\<rparr>"]
  by (simp add: jobUpdateFunc_def podUpdateFunc_def handleObject_def GetControllerOf_def
      enqueueLoadTest_def MetaNamespaceKeyFunc_def NewJob_def Let_def ex_simps)

subsection \<open>Report URL and namespace\<close>

text \<open>
  C8. Every call of the backend's \<^verbatim>\<open>Sync\<close> that \<^verbatim>\<open>syncHandler\<close> makes for a LoadTest
  named \<open>n\<close> carries, when a proxy URL \<open>p\<close> is configured, the report URL
  \<open>p + "/load-test/" + n + "/report"\<close>, and \<^verbatim>\<open>NewJob\<close> with that URL gives the container
  the one environment variable \<^verbatim>\<open>REPORT_PRESIGNED_URL\<close> with that value; with no proxy
  URL the report URL is empty and the container has no environment variable.
\<close>

theorem report_url_env:
  assumes "syncHandler c key = (res, copy, tr)"
    and "(loadTest, reportURL) \<in> set (syncCalls tr)"
  shows "(cfg_KangalProxyURL (c_cfg c) \<noteq> [] \<longrightarrow>
            reportURL = cfg_KangalProxyURL (c_cfg c) @ ''/load-test/'' @
                        om_name (lt_meta loadTest) @ ''/report'' \<and>
            map ct_env (job_containers (fst (NewJob b loadTest cm reportURL))) =
              [[\<lparr>env_name = ''REPORT_PRESIGNED_URL'',
                 env_value = cfg_KangalProxyURL (c_cfg c) @ ''/load-test/'' @
                             om_name (lt_meta loadTest) @ ''/report''\<rparr>]]) \<and>
         (cfg_KangalProxyURL (c_cfg c) = [] \<longrightarrow>
            reportURL = [] \<and>
            map ct_env (job_containers (fst (NewJob b loadTest cm reportURL))) = [[]])"
proof -
  from syncHandler_cases [OF assms(1)] assms(2)
  obtain ns name cached be lt' tr' where
    d: "syncHandler_deferred c key be cached
              (if cfg_KangalProxyURL (c_cfg c) \<noteq> []
               then cfg_KangalProxyURL (c_cfg c) @ ''/load-test/'' @
                    om_name (lt_meta cached) @ ''/report''
               else []) = (res, lt', tr')"
    and t: "tr = tr' @ updateLoadTestStatus c key lt' cached"
    by auto
  from assms(2) t have "(loadTest, reportURL) \<in> set (syncCalls tr')"
    by (simp add: updateLoadTestStatus_calls)
  with syncHandler_deferred_calls [OF d]
  have url: "reportURL =
              (if cfg_KangalProxyURL (c_cfg c) \<noteq> []
               then cfg_KangalProxyURL (c_cfg c) @ ''/load-test/'' @
                    om_name (lt_meta cached) @ ''/report''
               else [])"
    and meta: "lt_meta loadTest = lt_meta cached"
    by blast+
  have env: "map ct_env (job_containers (fst (NewJob b loadTest cm u))) =
      [if u \<noteq> [] then [\<lparr>env_name = ''REPORT_PRESIGNED_URL'', env_value = u\<rparr>] else []]" for u
    by (simp add: NewJob_def job_containers_def Let_def split: prod.splits) 
  from url meta show ?thesis by (simp add: env)
qed

theorem report_url_env_witness:
  "map (\<lambda>(l, u). (om_name (lt_meta l), u)) (syncCalls (snd (snd (syncHandler ex_controller ''t1''))))
     = [(''t1'', ''https://p.example/load-test/t1/report'')] \<and>
   map ct_env (job_containers (fst (NewJob ex_backend ex_loadTest
      (NewTestFileConfigMap ex_backend ex_loadTest) ''https://p.example/load-test/t1/report'')))
     = [[\<lparr>env_name = ''REPORT_PRESIGNED_URL'',
          env_value = ''https://p.example/load-test/t1/report''\<rparr>]] \<and>
   map (\<lambda>(l, u). (om_name (lt_meta l), u)) (syncCalls (snd (snd (syncHandler ex_noProxy ''t1''))))
     = [(''t1'', [])] \<and>
   map ct_env (job_containers (fst (NewJob ex_backend ex_loadTest
      (NewTestFileConfigMap ex_backend ex_loadTest) []))) = [[]]"
proof -
  let ?lt = "ex_loadTest\<lparr>lt_status := (lt_status ex_loadTest)\<lparr>st_namespace := ''t1''\<rparr>\<rparr>"
  have run: "syncHandler k key =
      (fst (syncHandler k key), fst (snd (syncHandler k key)), snd (snd (syncHandler k key)))"
    for k key
    by simp
  have calls: "syncCalls (snd (snd (syncHandler ex_controller ''t1''))) =
      [(?lt, ''https://p.example/load-test/t1/report'')]"
    by (simp add: run_simps ex_simps)
  have calls': "syncCalls (snd (snd (syncHandler ex_noProxy ''t1''))) = [(?lt, [])]"
    by (simp add: run_simps ex_noProxy_def ex_simps)
  have mem: "(?lt, ''https://p.example/load-test/t1/report'')
      \<in> set (syncCalls (snd (snd (syncHandler ex_controller ''t1''))))"
    by (simp add: calls)
  have mem': "(?lt, []) \<in> set (syncCalls (snd (snd (syncHandler ex_noProxy ''t1''))))"
    by (simp add: calls')
  have job: "job_containers (fst (NewJob ex_backend ?lt cm u)) =
             job_containers (fst (NewJob ex_backend ex_loadTest cm u))" for cm u
    by (simp add: NewJob_def job_containers_def Let_def ex_simps split: prod.splits)
  from report_url_env [OF run mem, of ex_backend "NewTestFileConfigMap ex_backend ex_loadTest"]
    report_url_env [OF run mem', of ex_backend "NewTestFileConfigMap ex_backend ex_loadTest"]
  show ?thesis
    by (simp add: calls calls' job) (simp add: ex_simps)
qed

text \<open>
  The label map the command configures is never nil: whenever
  \<^verbatim>\<open>convertKeyPairStringToMap\<close> returns without error it returns a map.
\<close>

lemma convertKeyPairStringToMap_loop_not_nil:
  "convertKeyPairStringToMap_loop m s = Inr r \<Longrightarrow> r \<noteq> None"
  by (induction m s rule: convertKeyPairStringToMap_loop.induct)
     (auto simp: Let_def split: if_splits)

lemma convertKeyPairStringToMap_not_nil:
  "convertKeyPairStringToMap s = Inr r \<Longrightarrow> r \<noteq> None"
  by (simp add: convertKeyPairStringToMap_def convertKeyPairStringToMap_loop_not_nil)

lemma convertKeyPairStringToMap_example:
  "\<exists>m. convertKeyPairStringToMap [''team:perf'', ''a:b:c''] = Inr (Some m) \<and>
       m ''team'' = Some ''perf'' \<and> m ''a'' = Some ''b:c''"
  by (simp add: convertKeyPairStringToMap_def strings_SplitN2_def Let_def)

text \<open>With no configured label map the clone is nil and \<^verbatim>\<open>newNamespace\<close> panics.\<close>

lemma newNamespace_nil_labels:
  "newNamespace gv loadtest None annotations = Panicked ''assignment to entry in nil map''"
  by (simp add: newNamespace_def maps_Clone_def)

text \<open>When the list or the create call fails, the status is left as it was.\<close>

lemma checkOrCreateNamespace_error:
  "checkOrCreateNamespace c loadtest = (r, loadtest', tr) \<Longrightarrow> r \<noteq> Returned None \<Longrightarrow>
   loadtest' = loadtest"
  by (auto simp: checkOrCreateNamespace_def Let_def
      split: if_splits sum.splits list.splits go_result.splits option.splits prod.splits)

text \<open>
  C9. With a non-empty \<^verbatim>\<open>status.namespace\<close>, \<^verbatim>\<open>checkOrCreateNamespace\<close> returns at once:
  no call, no change. With an empty one it lists the namespaces labelled
  \<^verbatim>\<open>controller=<name>\<close>. If there is none, it asks the cluster to create a namespace
  named after the LoadTest, labelled with the configured labels plus
  \<^verbatim>\<open>controller=<name>\<close> and \<^verbatim>\<open>app=kangal\<close>, annotated with the configured annotations
  and owned by the LoadTest, and sets \<^verbatim>\<open>status.namespace\<close> to the name of the namespace
  the cluster returns. If there is one, it creates nothing and sets
  \<^verbatim>\<open>status.namespace\<close> to the name of the first listed. Nothing else of the LoadTest
  changes.
\<close>

theorem checkOrCreateNamespace_spec:
  "(st_namespace (lt_status loadtest) \<noteq> [] \<longrightarrow>
      checkOrCreateNamespace c loadtest = (Returned None, loadtest, [])) \<and>
   (st_namespace (lt_status loadtest) = [] \<and>
    namespaces_List c (''controller='' @ om_name (lt_meta loadtest)) = Inr [] \<and>
    cfg_NamespaceLabels (c_cfg c) = Some labels \<and>
    namespaces_Create c
      \<lparr>ns_meta = zeroObjectMeta
         \<lparr>om_name := om_name (lt_meta loadtest),
          om_labels := Some (labels(''controller'' \<mapsto> om_name (lt_meta loadtest),
                                    ''app'' \<mapsto> ''kangal'')),
          om_annotations := cfg_NamespaceAnnotations (c_cfg c),
          om_ownerReferences :=
            [\<lparr>ref_apiVersion = c_groupVersion c, ref_kind = ''LoadTest'',
              ref_name = om_name (lt_meta loadtest), ref_uid = om_uid (lt_meta loadtest),
              ref_controller = Some True, ref_blockOwnerDeletion = Some True\<rparr>]\<rparr>\<rparr>
      = Inr created \<longrightarrow>
      checkOrCreateNamespace c loadtest =
        (Returned None,
         loadtest\<lparr>lt_status := (lt_status loadtest)
           \<lparr>st_namespace := om_name (ns_meta created)\<rparr>\<rparr>,
         [NamespacesList (''controller='' @ om_name (lt_meta loadtest)),
          NamespacesCreate
            \<lparr>ns_meta = zeroObjectMeta
               \<lparr>om_name := om_name (lt_meta loadtest),
                om_labels := Some (labels(''controller'' \<mapsto> om_name (lt_meta loadtest),
                                          ''app'' \<mapsto> ''kangal'')),
                om_annotations := cfg_NamespaceAnnotations (c_cfg c),
                om_ownerReferences :=
                  [\<lparr>ref_apiVersion = c_groupVersion c, ref_kind = ''LoadTest'',
                    ref_name = om_name (lt_meta loadtest),
                    ref_uid = om_uid (lt_meta loadtest),
                    ref_controller = Some True, ref_blockOwnerDeletion = Some True\<rparr>]\<rparr>\<rparr>,
          Logged Info ''Created new namespace''])) \<and>
   (st_namespace (lt_status loadtest) = [] \<and>
    namespaces_List c (''controller='' @ om_name (lt_meta loadtest)) = Inr (first # others)
      \<longrightarrow>
      checkOrCreateNamespace c loadtest =
        (Returned None,
         loadtest\<lparr>lt_status := (lt_status loadtest)
           \<lparr>st_namespace := om_name (ns_meta first)\<rparr>\<rparr>,
         [NamespacesList (''controller='' @ om_name (lt_meta loadtest))]))"
  by (simp add: checkOrCreateNamespace_def newNamespace_def maps_Clone_def
      NewControllerRef_def Let_def)

theorem checkOrCreateNamespace_spec_witness:
  "checkOrCreateNamespace ex_controller ex_finished = (Returned None, ex_finished, []) \<and>
   fst (checkOrCreateNamespace ex_controller ex_loadTest) = Returned None \<and>
   st_namespace (lt_status (fst (snd (checkOrCreateNamespace ex_controller ex_loadTest))))
     = ''t1'' \<and>
   map (\<lambda>n. (om_name (ns_meta n),
              map (the (om_labels (ns_meta n))) [''team'', ''controller'', ''app''],
              map ref_name (om_ownerReferences (ns_meta n))))
     (createCalls (snd (snd (checkOrCreateNamespace ex_controller ex_loadTest))))
     = [(''t1'', [Some ''perf'', Some ''t1'', Some ''kangal''], [''t1''])] \<and>
   checkOrCreateNamespace
     (ex_controller\<lparr>namespaces_List :=
        (\<lambda>sel. Inr [\<lparr>ns_meta = zeroObjectMeta\<lparr>om_name := ''kept''\<rparr>\<rparr>,
                     \<lparr>ns_meta = zeroObjectMeta\<lparr>om_name := ''other''\<rparr>\<rparr>])\<rparr>) ex_loadTest
     = (Returned None,
        ex_loadTest\<lparr>lt_status := (lt_status ex_loadTest)\<lparr>st_namespace := ''kept''\<rparr>\<rparr>,
        [NamespacesList ''controller=t1''])"
  using
    checkOrCreateNamespace_spec [of ex_finished ex_controller]
    checkOrCreateNamespace_spec [of ex_loadTest ex_controller "[''team'' \<mapsto> ''perf'']"
      "\<lparr>ns_meta = zeroObjectMeta
         \<lparr>om_name := ''t1'',
          om_labels := Some ([''team'' \<mapsto> ''perf'', ''controller'' \<mapsto> ''t1'',
                              ''app'' \<mapsto> ''kangal'']),
          om_annotations := Some Map.empty,
          om_ownerReferences :=
            [\<lparr>ref_apiVersion = ''kangal.hellofresh.com/v1'', ref_kind = ''LoadTest'',
              ref_name = ''t1'', ref_uid = ''uid-1'',
              ref_controller = Some True, ref_blockOwnerDeletion = Some True\<rparr>]\<rparr>\<rparr>"]
    checkOrCreateNamespace_spec [of ex_loadTest
      "ex_controller\<lparr>namespaces_List :=
        (\<lambda>sel. Inr [\<lparr>ns_meta = zeroObjectMeta\<lparr>om_name := ''kept''\<rparr>\<rparr>,
                     \<lparr>ns_meta = zeroObjectMeta\<lparr>om_name := ''other''\<rparr>\<rparr>])\<rparr>"
      _ _ "\<lparr>ns_meta = zeroObjectMeta\<lparr>om_name := ''kept''\<rparr>\<rparr>"
      "[\<lparr>ns_meta = zeroObjectMeta\<lparr>om_name := ''other''\<rparr>\<rparr>]"]
  by (simp add: ex_simps)

end
